theory Spec2Isabelle
  imports Main "HOL-Library.AList"
begin

section \<open>Values of the terminal launch code\<close>

text \<open>
  The development follows \<^verbatim>\<open>terminal_common.js\<close> (launch-info resolution, the title
  cache key and the title handler) and the active-terminal tracker it calls.

  JavaScript strings are \<^typ>\<open>string\<close>. A property that may be \<^verbatim>\<open>undefined\<close> is an
  \<^typ>\<open>'a option\<close>, with \<^term>\<open>None\<close> for \<^verbatim>\<open>undefined\<close>. What \<^verbatim>\<open>JSON.parse\<close> returns is
  a \<open>json\<close> value; numbers are the integers (tab identifiers are the only numbers
  the code inspects).
\<close>

datatype json =
  JNull
  | JBool bool
  | JNum int
  | JStr string
  | JArr "json list"
  | JObj "(string \<times> json) list"

datatype error = SyntaxError | TypeError

text \<open>Truthiness of a parsed value, and of a string that may be \<^verbatim>\<open>undefined\<close>.\<close>

fun truthy :: "json \<Rightarrow> bool" where
  "truthy JNull = False"
| "truthy (JBool b) = b"
| "truthy (JNum n) = (n \<noteq> 0)"
| "truthy (JStr s) = (s \<noteq> [])"
| "truthy (JArr vs) = True"
| "truthy (JObj ps) = True"

definition truthy_str :: "string option \<Rightarrow> bool" where
  "truthy_str v = (case v of None \<Rightarrow> False | Some s \<Rightarrow> s \<noteq> [])"

text \<open>
  A container id is a JavaScript object \<^verbatim>\<open>{vmName?: string, containerName?: string}\<close>. It is
  kept as the list of its own properties in insertion order, since
  \<^verbatim>\<open>Object.keys\<close> and \<^verbatim>\<open>JSON.stringify\<close> see that order. Reading a property is
  \<^term>\<open>map_of\<close>; assigning one is \<^term>\<open>AList.update\<close> (an existing property keeps its
  place, a new one goes last).
\<close>

type_synonym ContainerId = "(string \<times> string) list"

definition DEFAULT_VM_NAME :: string where
  "DEFAULT_VM_NAME = ''termina''"

definition DEFAULT_CONTAINER_NAME :: string where
  "DEFAULT_CONTAINER_NAME = ''penguin''"

definition TMUX_PARAM_NAME :: string where
  "TMUX_PARAM_NAME = ''tmux''"

record TerminalInfo =
  terminalId :: "string option"
  info_containerId :: "ContainerId option"
  tmuxDriverChannel :: "string option"

record ActiveTerminal =
  tabId :: int
  title :: string
  terminalInfo :: TerminalInfo

text \<open>
  The tracker object, with the fields its tests and callers read (\<open>tracker_active\<close> is
  \<^verbatim>\<open>active_\<close>, \<open>tracker_terminalInfo\<close> is \<^verbatim>\<open>terminalInfo_\<close>): \<^verbatim>\<open>tab.id\<close>,
  \<^verbatim>\<open>tab.windowId\<close>, \<^verbatim>\<open>active_\<close>, \<^verbatim>\<open>terminalInfo_\<close> and \<^verbatim>\<open>parentTerminal\<close>.
\<close>

record TerminalActiveTracker =
  tab_id :: int
  tab_windowId :: int
  tracker_active :: bool
  tracker_terminalInfo :: TerminalInfo
  parentTerminal :: "ActiveTerminal option"

text \<open>
  A URL as the code reads it: \<^verbatim>\<open>host\<close>, \<^verbatim>\<open>pathname\<close> and \<^verbatim>\<open>searchParams\<close>, the decoded
  name/value pairs of the query in order.
\<close>

record URL =
  host :: string
  pathname :: string
  searchParams :: "(string \<times> string) list"

definition searchParams_has :: "(string \<times> string) list \<Rightarrow> string \<Rightarrow> bool" where
  "searchParams_has ps n = (map_of ps n \<noteq> None)"

definition searchParams_get :: "(string \<times> string) list \<Rightarrow> string \<Rightarrow> string option" where
  "searchParams_get ps n = map_of ps n"

definition searchParams_getAll :: "(string \<times> string) list \<Rightarrow> string \<Rightarrow> string list" where
  "searchParams_getAll ps n = map snd (filter (\<lambda>p. fst p = n) ps)"

record VshLaunchInfo =
  args :: "string list"
  containerId :: ContainerId
  hasCwd :: bool

datatype TerminalLaunchInfo =
  Crosh
  | Ssh
  | Tmux json
  | Vsh VshLaunchInfo

section \<open>String helpers\<close>

definition startsWith :: "string \<Rightarrow> string \<Rightarrow> bool" where
  "startsWith s p = (take (length p) s = p)"

text \<open>\<^verbatim>\<open>s.split(c)\<close> for a one-character separator: never empty, \<^verbatim>\<open>''.split(c)\<close> is \<^verbatim>\<open>['']\<close>.\<close>

fun split_on :: "char \<Rightarrow> string \<Rightarrow> string list" where
  "split_on c [] = [[]]"
| "split_on c (x # xs) =
     (if x = c then [] # split_on c xs
      else (case split_on c xs of
              [] \<Rightarrow> [[x]]
            | p # ps \<Rightarrow> (x # p) # ps))"

text \<open>
  \<^verbatim>\<open>arg.split('=', 2)[1]\<close>: the limit keeps the first two pieces, so the value is the
  text between the first and the second \<^verbatim>\<open>=\<close>; \<^verbatim>\<open>undefined\<close> when there is no \<^verbatim>\<open>=\<close>.
\<close>

definition arg_value :: "string \<Rightarrow> string option" where
  "arg_value arg =
     (case take 2 (split_on CHR ''='' arg) of
        [p, v] \<Rightarrow> Some v
      | _ \<Rightarrow> None)"

section \<open>Launch-info resolution\<close>

text \<open>
  The loop over \<^verbatim>\<open>args\<close> of \<^verbatim>\<open>getTerminalLaunchInfo\<close>. The state is
  \<^verbatim>\<open>(outputArgs, containerId, inputArgsHasCwd, outputArgsHasCwd)\<close>.
\<close>

type_synonym scan_state = "string list \<times> ContainerId \<times> bool \<times> bool"

fun scanArgs :: "string list \<Rightarrow> scan_state \<Rightarrow> scan_state" where
  "scanArgs [] st = st"
| "scanArgs (arg # rest) (outputArgs, cid, inputArgsHasCwd, outputArgsHasCwd) =
     (if startsWith arg ''--vm_name='' then
        scanArgs rest
          (outputArgs,
           (case arg_value arg of
              None \<Rightarrow> cid
            | Some v \<Rightarrow> if v \<noteq> [] then AList.update ''vmName'' v cid else cid),
           inputArgsHasCwd, outputArgsHasCwd)
      else if startsWith arg ''--target_container='' then
        scanArgs rest
          (outputArgs,
           (case arg_value arg of
              None \<Rightarrow> cid
            | Some v \<Rightarrow> if v \<noteq> [] then AList.update ''containerName'' v cid else cid),
           inputArgsHasCwd, outputArgsHasCwd)
      else if startsWith arg ''--cwd='' then
        scanArgs rest (outputArgs @ [arg], cid, True, True)
      else
        scanArgs rest (outputArgs @ [arg], cid, inputArgsHasCwd, outputArgsHasCwd))"

text \<open>
  \<^verbatim>\<open>parentTerminalInfo?.containerId || {vmName: DEFAULT_VM_NAME, containerName:
  DEFAULT_CONTAINER_NAME}\<close>: an object is truthy, so the default is taken exactly when there
  is no parent or the parent's terminal info has no container id.
\<close>

definition defaultContainerId :: ContainerId where
  "defaultContainerId =
     [(''vmName'', DEFAULT_VM_NAME), (''containerName'', DEFAULT_CONTAINER_NAME)]"

definition parentContainerId :: "TerminalInfo option \<Rightarrow> ContainerId" where
  "parentContainerId parentTerminalInfo =
     (case parentTerminalInfo of
        None \<Rightarrow> defaultContainerId
      | Some ti \<Rightarrow>
          (case info_containerId ti of
             None \<Rightarrow> defaultContainerId
           | Some c \<Rightarrow> c))"

definition parentTerminalId :: "TerminalInfo option \<Rightarrow> string option" where
  "parentTerminalId parentTerminalInfo =
     (case parentTerminalInfo of None \<Rightarrow> None | Some ti \<Rightarrow> terminalId ti)"

text \<open>The two flags pushed for the resolved container id, each only for a truthy field.\<close>

definition containerFlags :: "ContainerId \<Rightarrow> string list" where
  "containerFlags cid =
     (case map_of cid ''vmName'' of
        None \<Rightarrow> []
      | Some v \<Rightarrow> if v \<noteq> [] then [''--vm_name='' @ v] else []) @
     (case map_of cid ''containerName'' of
        None \<Rightarrow> []
      | Some c \<Rightarrow> if c \<noteq> [] then [''--target_container='' @ c] else [])"

text \<open>The part of \<^verbatim>\<open>getTerminalLaunchInfo\<close> from \<^verbatim>\<open>urlParams.getAll('args[]')\<close> on.\<close>

definition vshLaunchInfo ::
  "TerminalInfo option \<Rightarrow> (string \<times> string) list \<Rightarrow> VshLaunchInfo" where
  "vshLaunchInfo parentTerminalInfo urlParams =
     (case scanArgs (searchParams_getAll urlParams ''args[]'') ([], [], False, False) of
        (outputArgs0, cid0, inputArgsHasCwd, outputArgsHasCwd0) \<Rightarrow>
          let pcid = parentContainerId parentTerminalInfo;
              cid = (if length cid0 = 0 then pcid else cid0);
              outputArgs1 = outputArgs0 @ containerFlags cid
          in
            (case parentTerminalId parentTerminalInfo of
               None \<Rightarrow>
                 \<lparr>args = outputArgs1, containerId = cid, hasCwd = outputArgsHasCwd0\<rparr>
             | Some tid \<Rightarrow>
                 if \<not> inputArgsHasCwd \<and> tid \<noteq> [] \<and>
                    map_of cid ''vmName'' = map_of pcid ''vmName'' \<and>
                    map_of cid ''containerName'' = map_of pcid ''containerName''
                 then
                   \<lparr>args = outputArgs1 @ [''--cwd=terminal_id:'' @ tid],
                    containerId = cid, hasCwd = True\<rparr>
                 else
                   \<lparr>args = outputArgs1, containerId = cid, hasCwd = outputArgsHasCwd0\<rparr>))"

text \<open>
  \<^verbatim>\<open>parentTerminalInfo?.tmuxDriverChannel\<close> when it is truthy (a non-empty string), else
  \<^term>\<open>None\<close>.
\<close>

definition parentTmuxDriverChannel :: "TerminalInfo option \<Rightarrow> string option" where
  "parentTmuxDriverChannel parentTerminalInfo =
     (case parentTerminalInfo of
        None \<Rightarrow> None
      | Some ti \<Rightarrow>
          (case tmuxDriverChannel ti of
             None \<Rightarrow> None
           | Some channel \<Rightarrow> if channel \<noteq> [] then Some channel else None))"

text \<open>
  \<^verbatim>\<open>getTerminalLaunchInfo(activeTracker, isTmuxIntegrationEnabled, url)\<close>. The builtin
  \<^verbatim>\<open>JSON.parse\<close> is the parameter \<open>JSON_parse\<close>: \<^term>\<open>None\<close> is the \<^verbatim>\<open>SyntaxError\<close> it
  throws on malformed text. The function has no handler, so the exception is its result.
  \<^verbatim>\<open>urlParams.get\<close> of a missing name is \<^verbatim>\<open>null\<close>, which \<^verbatim>\<open>JSON.parse\<close> reads as the text
  \<^verbatim>\<open>null\<close> (a case the guard \<^verbatim>\<open>urlParams.has\<close> excludes).
\<close>

definition getTerminalLaunchInfo ::
  "(string \<Rightarrow> json option) \<Rightarrow> TerminalActiveTracker \<Rightarrow> bool \<Rightarrow> URL
     \<Rightarrow> error + TerminalLaunchInfo" where
  "getTerminalLaunchInfo JSON_parse activeTracker isTmuxIntegrationEnabled url =
     (if host url = ''crosh'' then Inr Crosh
      else if pathname url = ''/html/terminal_ssh.html'' \<or>
              pathname url = ''/html/nassh.html'' then Inr Ssh
      else
        let urlParams = searchParams url;
            parentTerminalInfo = map_option terminalInfo (parentTerminal activeTracker)
        in
          if isTmuxIntegrationEnabled \<and> searchParams_has urlParams TMUX_PARAM_NAME then
            (case JSON_parse (case searchParams_get urlParams TMUX_PARAM_NAME of
                                None \<Rightarrow> ''null''
                              | Some text \<Rightarrow> text) of
               None \<Rightarrow> Inl SyntaxError
             | Some v \<Rightarrow> Inr (Tmux v))
          else
            (case (if isTmuxIntegrationEnabled \<and> urlParams = []
                   then parentTmuxDriverChannel parentTerminalInfo else None) of
               Some channel \<Rightarrow> Inr (Tmux (JObj [(''driverChannelName'', JStr channel)]))
             | None \<Rightarrow> Inr (Vsh (vshLaunchInfo parentTerminalInfo urlParams))))"

section \<open>The title cache key\<close>

text \<open>
  \<^verbatim>\<open>QuoteJSONString\<close> of ECMAScript, on 8-bit characters: the short escapes, \<^verbatim>\<open>\u00XX\<close>
  for the other control characters, every other character as it is.
\<close>

definition hexDigit :: "nat \<Rightarrow> char" where
  "hexDigit n = ''0123456789abcdef'' ! (n mod 16)"

definition quoteChar :: "char \<Rightarrow> string" where
  "quoteChar c =
     (if c = CHR 0x08 then [CHR 0x5C, CHR ''b'']
      else if c = CHR 0x09 then [CHR 0x5C, CHR ''t'']
      else if c = CHR 0x0A then [CHR 0x5C, CHR ''n'']
      else if c = CHR 0x0C then [CHR 0x5C, CHR ''f'']
      else if c = CHR 0x0D then [CHR 0x5C, CHR ''r'']
      else if c = CHR 0x22 then [CHR 0x5C, CHR 0x22]
      else if c = CHR 0x5C then [CHR 0x5C, CHR 0x5C]
      else if (of_char c :: nat) < 0x20 then
        [CHR 0x5C, CHR ''u'', CHR ''0'', CHR ''0'',
         hexDigit (of_char c div 16), hexDigit (of_char c mod 16)]
      else [c])"

definition QuoteJSONString :: "string \<Rightarrow> string" where
  "QuoteJSONString s = [CHR 0x22] @ concat (map quoteChar s) @ [CHR 0x22]"

fun join :: "string \<Rightarrow> string list \<Rightarrow> string" where
  "join sep [] = []"
| "join sep [x] = x"
| "join sep (x # y # zs) = x @ sep @ join sep (y # zs)"

text \<open>
  \<^verbatim>\<open>JSON.stringify(value, replacer)\<close> for an object of string properties and an array
  replacer of distinct names: the names of the replacer are visited in the replacer's
  order, and a name the object does not have is left out.
\<close>

fun serializeMembers :: "ContainerId \<Rightarrow> string list \<Rightarrow> string list" where
  "serializeMembers obj [] = []"
| "serializeMembers obj (k # ks) =
     (case map_of obj k of
        None \<Rightarrow> serializeMembers obj ks
      | Some v \<Rightarrow> (QuoteJSONString k @ '':'' @ QuoteJSONString v) # serializeMembers obj ks)"

definition JSON_stringify :: "ContainerId \<Rightarrow> string list \<Rightarrow> string" where
  "JSON_stringify obj replacer = ''{'' @ join '','' (serializeMembers obj replacer) @ ''}''"

definition getInitialTitleCacheKey :: "ContainerId \<Rightarrow> string" where
  "getInitialTitleCacheKey cid =
     ''cachedInitialTitle-'' @ JSON_stringify cid [''containerName'', ''vmName'']"

text \<open>
  \<^verbatim>\<open>composeTitle\<close>: \<^verbatim>\<open>containerId.containerName || containerId.vmName || ''\<close>, then
  \<^verbatim>\<open>:~\<close>, after \<^verbatim>\<open><>@\<close>. \<open>firstTruthy\<close> is the \<^verbatim>\<open>||\<close> chain ending in the empty string.
\<close>

fun firstTruthy :: "string option list \<Rightarrow> string" where
  "firstTruthy [] = []"
| "firstTruthy (None # vs) = firstTruthy vs"
| "firstTruthy (Some s # vs) = (if s \<noteq> [] then s else firstTruthy vs)"

definition composeTitle :: "ContainerId \<Rightarrow> string" where
  "composeTitle cid =
     ''<>@'' @ (firstTruthy [map_of cid ''containerName'', map_of cid ''vmName''] @ '':~'')"

section \<open>The page and the active-terminal tracker\<close>

text \<open>
  What the handlers read and write. \<open>localStorage\<close> holds the items of
  \<^verbatim>\<open>window.localStorage\<close> that the title cache reads and writes as plain strings, and
  \<open>document_title\<close> is \<^verbatim>\<open>document.title\<close> as it was last assigned (the browser strips
  and collapses white space when the title is read back; that is not represented).

  \<open>windowRecords\<close> holds the items the tracker keeps, one per browser window: the
  item of a window is found by the window's id (the source derives a storage key from
  it), and is kept as what \<^verbatim>\<open>JSON.parse\<close> makes of its text, \<open>Malformed\<close> when the text
  is not JSON. The tracker's items and the title cache's are different items of the
  storage, so they are two maps here.
\<close>

datatype stored = Malformed | Parsed json

record World =
  localStorage :: "string \<rightharpoonup> string"
  windowRecords :: "int \<rightharpoonup> stored"
  document_title :: string

text \<open>
  The JSON object a record \<^verbatim>\<open>{tabId, title, terminalInfo}\<close> is stored as. A property that
  is \<^verbatim>\<open>undefined\<close> is not written. The properties of the terminal info are listed in one
  fixed order; the code never reads their order.
\<close>

definition optionalProperty ::
  "string \<Rightarrow> ('a \<Rightarrow> json) \<Rightarrow> 'a option \<Rightarrow> (string \<times> json) list" where
  "optionalProperty k f v = (case v of None \<Rightarrow> [] | Some x \<Rightarrow> [(k, f x)])"

definition terminalInfo_json :: "TerminalInfo \<Rightarrow> json" where
  "terminalInfo_json ti =
     JObj (optionalProperty ''terminalId'' JStr (terminalId ti) @
           optionalProperty ''containerId''
             (\<lambda>c. JObj (map (\<lambda>p. (fst p, JStr (snd p))) c)) (info_containerId ti) @
           optionalProperty ''tmuxDriverChannel'' JStr (tmuxDriverChannel ti))"

definition activeTerminal_json :: "int \<Rightarrow> string \<Rightarrow> TerminalInfo \<Rightarrow> json" where
  "activeTerminal_json tab_ident doc_title ti =
     JObj [(''tabId'', JNum tab_ident), (''title'', JStr doc_title),
           (''terminalInfo'', terminalInfo_json ti)]"

text \<open>
  Modelled from the spec: \<^verbatim>\<open>getWindowActiveTerminal()\<close> of the tracker class, whose source
  file (\<^verbatim>\<open>terminal_active_tracker.js\<close>) is not among the sources. It ``reads and
  deserializes the persisted record for this window; returns null if absent or
  malformed''.
\<close>

definition getWindowActiveTerminal :: "TerminalActiveTracker \<Rightarrow> World \<Rightarrow> json" where
  "getWindowActiveTerminal tracker w =
     (case windowRecords w (tab_windowId tracker) of
        None \<Rightarrow> JNull
      | Some Malformed \<Rightarrow> JNull
      | Some (Parsed v) \<Rightarrow> v)"

text \<open>
  The \<^verbatim>\<open>tabId\<close> of a deserialized record, as a number: \<^verbatim>\<open>record?.tabId\<close> compared with
  a tab id by \<^verbatim>\<open>===\<close> can only hold for a number.
\<close>

fun recordTabId :: "json \<Rightarrow> int option" where
  "recordTabId (JObj ps) =
     (case map_of ps ''tabId'' of Some (JNum n) \<Rightarrow> Some n | _ \<Rightarrow> None)"
| "recordTabId v = None"

text \<open>
  Modelled from the spec: the ownership check of the tracker class (source file not among
  the sources), ``only if it currently names this tab'', ``compared by tabId equality
  after JSON round-trip''.
\<close>

definition namesThisTab :: "TerminalActiveTracker \<Rightarrow> World \<Rightarrow> bool" where
  "namesThisTab tracker w =
     (recordTabId (getWindowActiveTerminal tracker w) = Some (tab_id tracker))"

definition clearWindowRecord :: "TerminalActiveTracker \<Rightarrow> World \<Rightarrow> World" where
  "clearWindowRecord tracker w =
     w\<lparr>windowRecords := (windowRecords w)(tab_windowId tracker := None)\<rparr>"

text \<open>
  Modelled from the spec: \<^verbatim>\<open>maybeUpdateWindowActiveTerminal()\<close> of the tracker class (source
  file not among the sources). ``Record is written only if (a) this tab is marked active
  (focused) AND (b) the current terminal info carries a non-empty \<^verbatim>\<open>terminalId\<close>. Otherwise
  the persisted record is cleared (only if it currently names this tab -- never clobber
  another tab's record).'' The record is \<^verbatim>\<open>{tabId, title, terminalInfo}\<close> with the
  document's title, as the tracker's tests check it.
\<close>

definition maybeUpdateWindowActiveTerminal :: "TerminalActiveTracker \<Rightarrow> World \<Rightarrow> World" where
  "maybeUpdateWindowActiveTerminal tracker w =
     (if tracker_active tracker \<and> truthy_str (terminalId (tracker_terminalInfo tracker)) then
        w\<lparr>windowRecords := (windowRecords w)(tab_windowId tracker \<mapsto>
             Parsed (activeTerminal_json (tab_id tracker) (document_title w)
                       (tracker_terminalInfo tracker)))\<rparr>
      else if namesThisTab tracker w then clearWindowRecord tracker w
      else w)"

text \<open>
  Modelled from the spec: \<^verbatim>\<open>onUnload_()\<close> of the tracker class (source file not among the
  sources). ``On page teardown, clear the persisted record for this window only if it
  currently names this tab.''
\<close>

definition onUnload :: "TerminalActiveTracker \<Rightarrow> World \<Rightarrow> World" where
  "onUnload tracker w =
     (if namesThisTab tracker w then clearWindowRecord tracker w else w)"

section \<open>The title handler\<close>

text \<open>
  The state the observer's callback closes over: \<^verbatim>\<open>hasCwd\<close>, \<^verbatim>\<open>key\<close> and the
  variable \<^verbatim>\<open>isFirstTitle\<close>.
\<close>

record TitleObserver =
  observer_hasCwd :: bool
  observer_key :: string
  isFirstTitle :: bool

text \<open>
  \<^verbatim>\<open>if (!launchInfo) launchInfo = getTerminalLaunchInfo(tracker, await
  getTmuxIntegrationEnabled)\<close>, with the page's URL and the flag as inputs.
\<close>

definition resolveLaunchInfo ::
  "(string \<Rightarrow> json option) \<Rightarrow> TerminalActiveTracker \<Rightarrow> bool \<Rightarrow> URL
     \<Rightarrow> TerminalLaunchInfo option \<Rightarrow> error + TerminalLaunchInfo" where
  "resolveLaunchInfo JSON_parse tracker isTmuxIntegrationEnabled url launchInfo =
     (case launchInfo of
        Some li \<Rightarrow> Inr li
      | None \<Rightarrow> getTerminalLaunchInfo JSON_parse tracker isTmuxIntegrationEnabled url)"

text \<open>The vsh part of \<^verbatim>\<open>setUpTitleHandler\<close> that sets the initial title.\<close>

definition initialVshTitle :: "TerminalActiveTracker \<Rightarrow> VshLaunchInfo \<Rightarrow> World \<Rightarrow> World" where
  "initialVshTitle tracker vsh w =
     (case parentTerminal tracker of
        Some parent \<Rightarrow> w\<lparr>document_title := title parent\<rparr>
      | None \<Rightarrow>
          (case localStorage w (getInitialTitleCacheKey (containerId vsh)) of
             Some cached \<Rightarrow> w\<lparr>document_title := cached\<rparr>
           | None \<Rightarrow>
               if map_of (containerId vsh) ''vmName'' \<noteq> Some DEFAULT_VM_NAME \<or>
                  map_of (containerId vsh) ''containerName'' \<noteq> Some DEFAULT_CONTAINER_NAME
               then w\<lparr>document_title := composeTitle (containerId vsh)\<rparr>
               else w))"

text \<open>
  \<^verbatim>\<open>setUpTitleHandler(launchInfo)\<close>. The result is the observer it installs (none for
  crosh, tmux and ssh) and the page after it. A \<^verbatim>\<open>tmux\<close> property that is falsy falls
  through to the destructuring of \<^verbatim>\<open>launchInfo.vsh\<close>, which is \<^verbatim>\<open>undefined\<close> there: a
  \<^verbatim>\<open>TypeError\<close>.
\<close>

definition setUpTitleHandler ::
  "(string \<Rightarrow> json option) \<Rightarrow> TerminalActiveTracker \<Rightarrow> bool \<Rightarrow> URL
     \<Rightarrow> TerminalLaunchInfo option \<Rightarrow> World \<Rightarrow> error + (TitleObserver option \<times> World)" where
  "setUpTitleHandler JSON_parse tracker isTmuxIntegrationEnabled url launchInfo w =
     (case resolveLaunchInfo JSON_parse tracker isTmuxIntegrationEnabled url launchInfo of
        Inl e \<Rightarrow> Inl e
      | Inr Crosh \<Rightarrow> Inr (None, w\<lparr>document_title := ''crosh''\<rparr>)
      | Inr (Tmux v) \<Rightarrow>
          if truthy v then Inr (None, w\<lparr>document_title := ''[tmux]''\<rparr>) else Inl TypeError
      | Inr Ssh \<Rightarrow> Inr (None, w\<lparr>document_title := ''SSH''\<rparr>)
      | Inr (Vsh vsh) \<Rightarrow>
          Inr (Some \<lparr>observer_hasCwd = hasCwd vsh,
                     observer_key = getInitialTitleCacheKey (containerId vsh),
                     isFirstTitle = True\<rparr>,
               initialVshTitle tracker vsh w))"

text \<open>
  The observer's callback, run for a title mutation: \<open>textContent\<close> is
  \<^verbatim>\<open>mutations[0].target.textContent\<close>. It ends with the tracker's
  \<^verbatim>\<open>maybeUpdateWindowActiveTerminal()\<close>.
\<close>

definition titleObserver ::
  "TerminalActiveTracker \<Rightarrow> string \<Rightarrow> TitleObserver \<times> World \<Rightarrow> TitleObserver \<times> World" where
  "titleObserver tracker textContent st =
     (case st of (ob, w) \<Rightarrow>
        (ob\<lparr>isFirstTitle := False\<rparr>,
         maybeUpdateWindowActiveTerminal tracker
           (if isFirstTitle ob \<and> \<not> observer_hasCwd ob
            then w\<lparr>localStorage := (localStorage w)(observer_key ob \<mapsto> textContent)\<rparr>
            else w)))"

text \<open>
  A session's title mutations in order. Each event carries the tracker as it is then, the
  document's title after the mutation and the text the callback reads.
\<close>

fun runTitleMutations ::
  "(TerminalActiveTracker \<times> string \<times> string) list \<Rightarrow> TitleObserver \<times> World
     \<Rightarrow> TitleObserver \<times> World" where
  "runTitleMutations [] st = st"
| "runTitleMutations ((tracker, doc_title, textContent) # events) (ob, w) =
     runTitleMutations events
       (titleObserver tracker textContent (ob, w\<lparr>document_title := doc_title\<rparr>))"

section \<open>Notions used in the statements\<close>

text \<open>
  The arguments the loop of \<^verbatim>\<open>getTerminalLaunchInfo\<close> copies to the output (all but the
  \<^verbatim>\<open>--vm_name=\<close> and \<^verbatim>\<open>--target_container=\<close> ones), and whether the input supplies a
  \<^verbatim>\<open>--cwd=\<close> argument.
\<close>

abbreviation passthroughArgs :: "string list \<Rightarrow> string list" where
  "passthroughArgs inputArgs \<equiv>
     filter (\<lambda>a. \<not> startsWith a ''--vm_name='' \<and> \<not> startsWith a ''--target_container='')
       inputArgs"

abbreviation suppliesCwd :: "string list \<Rightarrow> bool" where
  "suppliesCwd inputArgs \<equiv> (\<exists>a\<in>set inputArgs. startsWith a ''--cwd='')"

text \<open>
  The notions of the claims about the working directory, written out on the tracker's
  parent record: the flags of a container id (one for each non-empty field), the parent's
  container id (the default one when the parent's terminal info carries none), the
  condition under which the parent's working directory is followed, and the parent's
  terminal id.
\<close>

abbreviation flagsFor :: "ContainerId \<Rightarrow> string list" where
  "flagsFor cid \<equiv>
     (case map_of cid ''vmName'' of
        None \<Rightarrow> []
      | Some v \<Rightarrow> if v = [] then [] else [''--vm_name='' @ v]) @
     (case map_of cid ''containerName'' of
        None \<Rightarrow> []
      | Some c \<Rightarrow> if c = [] then [] else [''--target_container='' @ c])"

abbreviation containerOfParent :: "ActiveTerminal \<Rightarrow> ContainerId" where
  "containerOfParent parent \<equiv>
     (case info_containerId (terminalInfo parent) of
        None \<Rightarrow> [(''vmName'', ''termina''), (''containerName'', ''penguin'')]
      | Some c \<Rightarrow> c)"

abbreviation followsParentCwd ::
  "ActiveTerminal option \<Rightarrow> string list \<Rightarrow> ContainerId \<Rightarrow> bool" where
  "followsParentCwd parent inputArgs cid \<equiv>
     (\<not> suppliesCwd inputArgs \<and>
      (case parent of
         None \<Rightarrow> False
       | Some p \<Rightarrow>
           (case terminalId (terminalInfo p) of
              None \<Rightarrow> False
            | Some tid \<Rightarrow>
                tid \<noteq> [] \<and>
                map_of cid ''vmName'' = map_of (containerOfParent p) ''vmName'' \<and>
                map_of cid ''containerName'' = map_of (containerOfParent p) ''containerName'')))"

abbreviation terminalIdOfParent :: "ActiveTerminal option \<Rightarrow> string" where
  "terminalIdOfParent parent \<equiv>
     (case parent of
        None \<Rightarrow> []
      | Some p \<Rightarrow> (case terminalId (terminalInfo p) of None \<Rightarrow> [] | Some tid \<Rightarrow> tid))"

section \<open>The loop over the arguments\<close>

lemma startsWith_take:
  assumes "startsWith a p" and "n \<le> length p"
  shows "take n a = take n p"
proof -
  from assms(1) have "take (length p) a = p" by (simp add: startsWith_def)
  then have "take n (take (length p) a) = take n p" by simp
  with assms(2) show ?thesis by (simp add: min_def)
qed

lemma cwd_not_vm_name:
  assumes "startsWith a ''--cwd=''"
  shows "\<not> startsWith a ''--vm_name=''"
proof
  assume "startsWith a ''--vm_name=''"
  then have "take 3 a = take 3 ''--vm_name=''" by (rule startsWith_take) simp
  moreover from assms have "take 3 a = take 3 ''--cwd=''" by (rule startsWith_take) simp
  ultimately show False by simp
qed

lemma cwd_not_target_container:
  assumes "startsWith a ''--cwd=''"
  shows "\<not> startsWith a ''--target_container=''"
proof
  assume "startsWith a ''--target_container=''"
  then have "take 3 a = take 3 ''--target_container=''" by (rule startsWith_take) simp
  moreover from assms have "take 3 a = take 3 ''--cwd=''" by (rule startsWith_take) simp
  ultimately show False by simp
qed

lemma scanArgs_outputArgs:
  "fst (scanArgs inputArgs (out, cid, i, c)) =
     out @ filter (\<lambda>a. \<not> startsWith a ''--vm_name='' \<and> \<not> startsWith a ''--target_container='')
             inputArgs"
  by (induction inputArgs arbitrary: out cid i c) auto

lemma scanArgs_inputArgsHasCwd:
  "fst (snd (snd (scanArgs inputArgs (out, cid, i, c)))) =
     (i \<or> (\<exists>a\<in>set inputArgs. startsWith a ''--cwd=''))"
  by (induction inputArgs arbitrary: out cid i c)
     (auto dest: cwd_not_vm_name cwd_not_target_container)

lemma scanArgs_outputArgsHasCwd:
  "snd (snd (snd (scanArgs inputArgs (out, cid, i, c)))) =
     (c \<or> (\<exists>a\<in>set inputArgs. startsWith a ''--cwd=''))"
  by (induction inputArgs arbitrary: out cid i c)
     (auto dest: cwd_not_vm_name cwd_not_target_container)

lemma scanArgs_containerId_unchanged:
  assumes "\<forall>a\<in>set inputArgs.
             startsWith a ''--vm_name='' \<or> startsWith a ''--target_container='' \<longrightarrow>
             \<not> truthy_str (arg_value a)"
  shows "fst (snd (scanArgs inputArgs (out, cid, i, c))) = cid"
  using assms
  by (induction inputArgs arbitrary: out cid i c)
     (auto simp: truthy_str_def split: option.splits)

lemma scanArgs_initial:
  obtains cid0 where
    "scanArgs inputArgs ([], [], False, False) =
       (passthroughArgs inputArgs, cid0, suppliesCwd inputArgs, suppliesCwd inputArgs)"
proof -
  obtain out cid0 i c where scan: "scanArgs inputArgs ([], [], False, False) = (out, cid0, i, c)"
    by (cases "scanArgs inputArgs ([], [], False, False)")
  from scan scanArgs_outputArgs [of inputArgs "[]" "[]" False False]
  have "out = passthroughArgs inputArgs" by simp
  moreover from scan scanArgs_inputArgsHasCwd [of inputArgs "[]" "[]" False False]
  have "i = suppliesCwd inputArgs" by simp
  moreover from scan scanArgs_outputArgsHasCwd [of inputArgs "[]" "[]" False False]
  have "c = suppliesCwd inputArgs" by simp
  ultimately show thesis using scan that by simp
qed

lemma vshLaunchInfo_follows:
  assumes "\<not> suppliesCwd (searchParams_getAll urlParams ''args[]'')"
    and "parentTerminalId pti = Some tid" and "tid \<noteq> []"
    and "map_of (containerId (vshLaunchInfo pti urlParams)) ''vmName'' =
         map_of (parentContainerId pti) ''vmName''"
    and "map_of (containerId (vshLaunchInfo pti urlParams)) ''containerName'' =
         map_of (parentContainerId pti) ''containerName''"
  shows "args (vshLaunchInfo pti urlParams) =
           passthroughArgs (searchParams_getAll urlParams ''args[]'') @
           containerFlags (containerId (vshLaunchInfo pti urlParams)) @
           [''--cwd=terminal_id:'' @ tid]"
    and "hasCwd (vshLaunchInfo pti urlParams)"
proof -
  obtain cid0 where scan:
    "scanArgs (searchParams_getAll urlParams ''args[]'') ([], [], False, False) =
       (passthroughArgs (searchParams_getAll urlParams ''args[]''), cid0,
        suppliesCwd (searchParams_getAll urlParams ''args[]''),
        suppliesCwd (searchParams_getAll urlParams ''args[]''))"
    by (rule scanArgs_initial)
  have cid: "containerId (vshLaunchInfo pti urlParams) =
               (if cid0 = [] then parentContainerId pti else cid0)"
    by (simp add: vshLaunchInfo_def scan Let_def split: option.splits)
  from assms(4,5) have same:
    "map_of (if cid0 = [] then parentContainerId pti else cid0) ''vmName'' =
       map_of (parentContainerId pti) ''vmName''"
    "map_of (if cid0 = [] then parentContainerId pti else cid0) ''containerName'' =
       map_of (parentContainerId pti) ''containerName''"
    unfolding cid by simp_all
  have v: "vshLaunchInfo pti urlParams =
      \<lparr>args = passthroughArgs (searchParams_getAll urlParams ''args[]'') @
               containerFlags (if cid0 = [] then parentContainerId pti else cid0) @
               [''--cwd=terminal_id:'' @ tid],
       containerId = (if cid0 = [] then parentContainerId pti else cid0), hasCwd = True\<rparr>"
    using assms(1) same
    by (simp add: vshLaunchInfo_def scan Let_def assms(2,3))
  show "args (vshLaunchInfo pti urlParams) =
           passthroughArgs (searchParams_getAll urlParams ''args[]'') @
           containerFlags (containerId (vshLaunchInfo pti urlParams)) @
           [''--cwd=terminal_id:'' @ tid]"
    by (simp add: v)
  show "hasCwd (vshLaunchInfo pti urlParams)"
    by (simp add: v)
qed

lemma vshLaunchInfo_not_follows:
  assumes "\<not> (\<not> suppliesCwd (searchParams_getAll urlParams ''args[]'') \<and>
              truthy_str (parentTerminalId pti) \<and>
              map_of (containerId (vshLaunchInfo pti urlParams)) ''vmName'' =
                map_of (parentContainerId pti) ''vmName'' \<and>
              map_of (containerId (vshLaunchInfo pti urlParams)) ''containerName'' =
                map_of (parentContainerId pti) ''containerName'')"
  shows "args (vshLaunchInfo pti urlParams) =
           passthroughArgs (searchParams_getAll urlParams ''args[]'') @
           containerFlags (containerId (vshLaunchInfo pti urlParams))"
    and "hasCwd (vshLaunchInfo pti urlParams) =
           suppliesCwd (searchParams_getAll urlParams ''args[]'')"
proof -
  obtain cid0 where scan:
    "scanArgs (searchParams_getAll urlParams ''args[]'') ([], [], False, False) =
       (passthroughArgs (searchParams_getAll urlParams ''args[]''), cid0,
        suppliesCwd (searchParams_getAll urlParams ''args[]''),
        suppliesCwd (searchParams_getAll urlParams ''args[]''))"
    by (rule scanArgs_initial)
  have cid: "containerId (vshLaunchInfo pti urlParams) =
               (if cid0 = [] then parentContainerId pti else cid0)"
    by (simp add: vshLaunchInfo_def scan Let_def split: option.splits)
  from assms have no:
    "\<not> (\<not> suppliesCwd (searchParams_getAll urlParams ''args[]'') \<and>
        truthy_str (parentTerminalId pti) \<and>
        map_of (if cid0 = [] then parentContainerId pti else cid0) ''vmName'' =
          map_of (parentContainerId pti) ''vmName'' \<and>
        map_of (if cid0 = [] then parentContainerId pti else cid0) ''containerName'' =
          map_of (parentContainerId pti) ''containerName'')"
    unfolding cid by simp
  have v: "vshLaunchInfo pti urlParams =
      \<lparr>args = passthroughArgs (searchParams_getAll urlParams ''args[]'') @
               containerFlags (if cid0 = [] then parentContainerId pti else cid0),
       containerId = (if cid0 = [] then parentContainerId pti else cid0),
       hasCwd = suppliesCwd (searchParams_getAll urlParams ''args[]'')\<rparr>"
  proof (cases "parentTerminalId pti")
    case None
    then show ?thesis by (simp add: vshLaunchInfo_def scan Let_def)
  next
    case (Some tid)
    with no show ?thesis
      by (simp add: vshLaunchInfo_def scan Let_def truthy_str_def)
  qed
  show "args (vshLaunchInfo pti urlParams) =
           passthroughArgs (searchParams_getAll urlParams ''args[]'') @
           containerFlags (containerId (vshLaunchInfo pti urlParams))"
    by (simp add: v)
  show "hasCwd (vshLaunchInfo pti urlParams) =
           suppliesCwd (searchParams_getAll urlParams ''args[]'')"
    by (simp add: v)
qed


lemma getTerminalLaunchInfo_Vsh:
  assumes "getTerminalLaunchInfo JSON_parse tracker flag url = Inr (Vsh vsh)"
  shows "vsh = vshLaunchInfo (map_option terminalInfo (parentTerminal tracker)) (searchParams url)"
  using assms unfolding getTerminalLaunchInfo_def
  by (auto simp: Let_def split: if_splits option.splits)

lemma containerFlags_explicit: "containerFlags cid = flagsFor cid"
  by (simp add: containerFlags_def split: option.splits)

lemma vsh_resolution_explicit:
  assumes "getTerminalLaunchInfo JSON_parse tracker flag url = Inr (Vsh vsh)"
  shows "args vsh =
           passthroughArgs (searchParams_getAll (searchParams url) ''args[]'') @
           flagsFor (containerId vsh) @
           (if followsParentCwd (parentTerminal tracker)
                 (searchParams_getAll (searchParams url) ''args[]'') (containerId vsh)
            then [''--cwd=terminal_id:'' @ terminalIdOfParent (parentTerminal tracker)]
            else [])"
    and "hasCwd vsh =
           (suppliesCwd (searchParams_getAll (searchParams url) ''args[]'') \<or>
            followsParentCwd (parentTerminal tracker)
              (searchParams_getAll (searchParams url) ''args[]'') (containerId vsh))"
proof -
  define pti where "pti = map_option terminalInfo (parentTerminal tracker)"
  define inputArgs where "inputArgs = searchParams_getAll (searchParams url) ''args[]''"
  have vsh: "vsh = vshLaunchInfo pti (searchParams url)"
    unfolding pti_def using assms by (rule getTerminalLaunchInfo_Vsh)
  let ?helper = "\<not> suppliesCwd inputArgs \<and>
              truthy_str (parentTerminalId pti) \<and>
              map_of (containerId vsh) ''vmName'' =
                map_of (parentContainerId pti) ''vmName'' \<and>
              map_of (containerId vsh) ''containerName'' =
                map_of (parentContainerId pti) ''containerName''"
  have same: "?helper \<longleftrightarrow>
      followsParentCwd (parentTerminal tracker) inputArgs (containerId vsh)"
    by (auto simp: pti_def parentTerminalId_def parentContainerId_def truthy_str_def
          defaultContainerId_def DEFAULT_VM_NAME_def DEFAULT_CONTAINER_NAME_def
          split: option.splits)
  have both: "args vsh =
           passthroughArgs inputArgs @ flagsFor (containerId vsh) @
           (if followsParentCwd (parentTerminal tracker) inputArgs (containerId vsh)
            then [''--cwd=terminal_id:'' @ terminalIdOfParent (parentTerminal tracker)]
            else []) \<and>
         hasCwd vsh =
           (suppliesCwd inputArgs \<or>
            followsParentCwd (parentTerminal tracker) inputArgs (containerId vsh))"
  proof (cases ?helper)
    case True
    then obtain tid where tid: "parentTerminalId pti = Some tid" "tid \<noteq> []"
      unfolding truthy_str_def by (auto split: option.splits)
    from True have a: "\<not> suppliesCwd (searchParams_getAll (searchParams url) ''args[]'')"
      and b: "map_of (containerId (vshLaunchInfo pti (searchParams url))) ''vmName'' =
                map_of (parentContainerId pti) ''vmName''"
      and c: "map_of (containerId (vshLaunchInfo pti (searchParams url))) ''containerName'' =
                map_of (parentContainerId pti) ''containerName''"
      unfolding inputArgs_def vsh by simp_all
    from tid(1) have "terminalIdOfParent (parentTerminal tracker) = tid"
      by (auto simp: pti_def parentTerminalId_def split: option.splits)
    moreover from True same
    have "followsParentCwd (parentTerminal tracker) inputArgs (containerId vsh)"
      by blast
    moreover note vshLaunchInfo_follows [OF a tid b c]
    ultimately show ?thesis
      unfolding vsh inputArgs_def containerFlags_explicit by simp
  next
    case False
    then have "\<not> (\<not> suppliesCwd (searchParams_getAll (searchParams url) ''args[]'') \<and>
              truthy_str (parentTerminalId pti) \<and>
              map_of (containerId (vshLaunchInfo pti (searchParams url))) ''vmName'' =
                map_of (parentContainerId pti) ''vmName'' \<and>
              map_of (containerId (vshLaunchInfo pti (searchParams url))) ''containerName'' =
                map_of (parentContainerId pti) ''containerName'')"
      unfolding inputArgs_def vsh by simp
    note no = vshLaunchInfo_not_follows [OF this]
    from False same
    have "\<not> followsParentCwd (parentTerminal tracker) inputArgs (containerId vsh)"
      by blast
    with no show ?thesis
      unfolding vsh inputArgs_def containerFlags_explicit by auto
  qed
  from both show "args vsh =
           passthroughArgs (searchParams_getAll (searchParams url) ''args[]'') @
           flagsFor (containerId vsh) @
           (if followsParentCwd (parentTerminal tracker)
                 (searchParams_getAll (searchParams url) ''args[]'') (containerId vsh)
            then [''--cwd=terminal_id:'' @ terminalIdOfParent (parentTerminal tracker)]
            else [])"
    unfolding inputArgs_def by blast
  from both show "hasCwd vsh =
           (suppliesCwd (searchParams_getAll (searchParams url) ''args[]'') \<or>
            followsParentCwd (parentTerminal tracker)
              (searchParams_getAll (searchParams url) ''args[]'') (containerId vsh))"
    unfolding inputArgs_def by blast
qed

lemmas vsh_eval =
  getTerminalLaunchInfo_def vshLaunchInfo_def searchParams_getAll_def searchParams_has_def
  searchParams_get_def startsWith_def arg_value_def parentContainerId_def parentTerminalId_def
  parentTmuxDriverChannel_def containerFlags_def defaultContainerId_def DEFAULT_VM_NAME_def
  DEFAULT_CONTAINER_NAME_def TMUX_PARAM_NAME_def truthy_str_def Let_def

lemma serializeMembers_cong:
  assumes "\<And>k. k \<in> set ks \<Longrightarrow> map_of obj1 k = map_of obj2 k"
  shows "serializeMembers obj1 ks = serializeMembers obj2 ks"
  using assms by (induction ks) (auto split: option.splits)

section \<open>Launch-info resolution: the claims\<close>

text \<open>
  Claim C1, as the code has it. For every resolution that yields a vsh launch, the argument
  \<^verbatim>\<open>--cwd=terminal_id:<parentTerminalId>\<close> is appended (after the passed-through arguments
  and the container flags) and \<^verbatim>\<open>hasCwd\<close> is set if and only if the input \<^verbatim>\<open>args[]\<close>
  supply no \<^verbatim>\<open>--cwd=\<close> argument, there is a parent whose terminal info has a non-empty
  \<^verbatim>\<open>terminalId\<close>, and the resolved container id agrees in both \<^verbatim>\<open>vmName\<close> and
  \<^verbatim>\<open>containerName\<close> with the parent's container id, or with the default container id
  \<^verbatim>\<open>{vmName:'termina', containerName:'penguin'}\<close> when the parent's terminal info carries no
  container id. Otherwise nothing is appended and \<^verbatim>\<open>hasCwd\<close> says whether the input
  supplied \<^verbatim>\<open>--cwd=\<close>.
\<close>

theorem cwd_inherited_iff_same_or_default_container:
  assumes "getTerminalLaunchInfo JSON_parse tracker flag url = Inr (Vsh vsh)"
  shows
    "(followsParentCwd (parentTerminal tracker)
        (searchParams_getAll (searchParams url) ''args[]'') (containerId vsh) \<longleftrightarrow>
      args vsh =
        passthroughArgs (searchParams_getAll (searchParams url) ''args[]'') @
        flagsFor (containerId vsh) @
        [''--cwd=terminal_id:'' @ terminalIdOfParent (parentTerminal tracker)] \<and>
      hasCwd vsh) \<and>
     (\<not> followsParentCwd (parentTerminal tracker)
          (searchParams_getAll (searchParams url) ''args[]'') (containerId vsh) \<longrightarrow>
      args vsh =
        passthroughArgs (searchParams_getAll (searchParams url) ''args[]'') @
        flagsFor (containerId vsh) \<and>
      hasCwd vsh = suppliesCwd (searchParams_getAll (searchParams url) ''args[]''))"
proof (cases "followsParentCwd (parentTerminal tracker)
        (searchParams_getAll (searchParams url) ''args[]'') (containerId vsh)")
  case True
  with vsh_resolution_explicit [OF assms] show ?thesis by auto
next
  case False
  with vsh_resolution_explicit [OF assms] show ?thesis by auto
qed

text \<open>
  Two instances. The claim's own: parent container
  \<^verbatim>\<open>{vmName:'termina', containerName:'work'}\<close>, child arguments
  \<^verbatim>\<open>['--target_container=other']\<close>; the resolved container id is \<^verbatim>\<open>{containerName:'other'}\<close>,
  no \<^verbatim>\<open>--cwd=\<close> is appended and \<^verbatim>\<open>hasCwd\<close> is false. And a child that names the parent's
  container in its arguments, in the other order: the fields agree, the parent's directory
  is followed.
\<close>

theorem cwd_inherited_iff_same_or_default_container_witness:
  "getTerminalLaunchInfo (\<lambda>json. None)
     \<lparr>tab_id = 7, tab_windowId = 1, tracker_active = True,
      tracker_terminalInfo = \<lparr>terminalId = None, info_containerId = None,
                               tmuxDriverChannel = None\<rparr>,
      parentTerminal = Some \<lparr>tabId = 3, title = ''parent'',
        terminalInfo = \<lparr>terminalId = Some ''t1'',
          info_containerId = Some [(''vmName'', ''termina''), (''containerName'', ''work'')],
          tmuxDriverChannel = None\<rparr>\<rparr>\<rparr>
     False
     \<lparr>host = ''terminal'', pathname = ''/html/terminal.html'',
      searchParams = [(''args[]'', ''--target_container=other'')]\<rparr> =
     Inr (Vsh \<lparr>args = [''--target_container=other''],
               containerId = [(''containerName'', ''other'')], hasCwd = False\<rparr>) \<and>
   getTerminalLaunchInfo (\<lambda>json. None)
     \<lparr>tab_id = 7, tab_windowId = 1, tracker_active = True,
      tracker_terminalInfo = \<lparr>terminalId = None, info_containerId = None,
                               tmuxDriverChannel = None\<rparr>,
      parentTerminal = Some \<lparr>tabId = 3, title = ''parent'',
        terminalInfo = \<lparr>terminalId = Some ''t1'',
          info_containerId = Some [(''vmName'', ''termina''), (''containerName'', ''work'')],
          tmuxDriverChannel = None\<rparr>\<rparr>\<rparr>
     False
     \<lparr>host = ''terminal'', pathname = ''/html/terminal.html'',
      searchParams = [(''args[]'', ''--target_container=work''), (''args[]'', ''--vm_name=termina'')]\<rparr> =
     Inr (Vsh \<lparr>args = [''--vm_name=termina'', ''--target_container=work'',
                       ''--cwd=terminal_id:t1''],
               containerId = [(''containerName'', ''work''), (''vmName'', ''termina'')],
               hasCwd = True\<rparr>)"
proof (rule conjI)
  have r: "getTerminalLaunchInfo (\<lambda>json. None)
     \<lparr>tab_id = 7, tab_windowId = 1, tracker_active = True,
      tracker_terminalInfo = \<lparr>terminalId = None, info_containerId = None,
                               tmuxDriverChannel = None\<rparr>,
      parentTerminal = Some \<lparr>tabId = 3, title = ''parent'',
        terminalInfo = \<lparr>terminalId = Some ''t1'',
          info_containerId = Some [(''vmName'', ''termina''), (''containerName'', ''work'')],
          tmuxDriverChannel = None\<rparr>\<rparr>\<rparr>
     False
     \<lparr>host = ''terminal'', pathname = ''/html/terminal.html'',
      searchParams = [(''args[]'', ''--target_container=other'')]\<rparr> =
     Inr (Vsh \<lparr>args = [''--target_container=other''],
               containerId = [(''containerName'', ''other'')], hasCwd = False\<rparr>)"
    by (simp add: vsh_eval)
  from cwd_inherited_iff_same_or_default_container [OF r] r
  show "getTerminalLaunchInfo (\<lambda>json. None)
     \<lparr>tab_id = 7, tab_windowId = 1, tracker_active = True,
      tracker_terminalInfo = \<lparr>terminalId = None, info_containerId = None,
                               tmuxDriverChannel = None\<rparr>,
      parentTerminal = Some \<lparr>tabId = 3, title = ''parent'',
        terminalInfo = \<lparr>terminalId = Some ''t1'',
          info_containerId = Some [(''vmName'', ''termina''), (''containerName'', ''work'')],
          tmuxDriverChannel = None\<rparr>\<rparr>\<rparr>
     False
     \<lparr>host = ''terminal'', pathname = ''/html/terminal.html'',
      searchParams = [(''args[]'', ''--target_container=other'')]\<rparr> =
     Inr (Vsh \<lparr>args = [''--target_container=other''],
               containerId = [(''containerName'', ''other'')], hasCwd = False\<rparr>)"
    by simp
next
  have r: "getTerminalLaunchInfo (\<lambda>json. None)
     \<lparr>tab_id = 7, tab_windowId = 1, tracker_active = True,
      tracker_terminalInfo = \<lparr>terminalId = None, info_containerId = None,
                               tmuxDriverChannel = None\<rparr>,
      parentTerminal = Some \<lparr>tabId = 3, title = ''parent'',
        terminalInfo = \<lparr>terminalId = Some ''t1'',
          info_containerId = Some [(''vmName'', ''termina''), (''containerName'', ''work'')],
          tmuxDriverChannel = None\<rparr>\<rparr>\<rparr>
     False
     \<lparr>host = ''terminal'', pathname = ''/html/terminal.html'',
      searchParams = [(''args[]'', ''--target_container=work''), (''args[]'', ''--vm_name=termina'')]\<rparr> =
     Inr (Vsh \<lparr>args = [''--vm_name=termina'', ''--target_container=work'',
                       ''--cwd=terminal_id:t1''],
               containerId = [(''containerName'', ''work''), (''vmName'', ''termina'')],
               hasCwd = True\<rparr>)"
    by (simp add: vsh_eval)
  from cwd_inherited_iff_same_or_default_container [OF r] r
  show "getTerminalLaunchInfo (\<lambda>json. None)
     \<lparr>tab_id = 7, tab_windowId = 1, tracker_active = True,
      tracker_terminalInfo = \<lparr>terminalId = None, info_containerId = None,
                               tmuxDriverChannel = None\<rparr>,
      parentTerminal = Some \<lparr>tabId = 3, title = ''parent'',
        terminalInfo = \<lparr>terminalId = Some ''t1'',
          info_containerId = Some [(''vmName'', ''termina''), (''containerName'', ''work'')],
          tmuxDriverChannel = None\<rparr>\<rparr>\<rparr>
     False
     \<lparr>host = ''terminal'', pathname = ''/html/terminal.html'',
      searchParams = [(''args[]'', ''--target_container=work''), (''args[]'', ''--vm_name=termina'')]\<rparr> =
     Inr (Vsh \<lparr>args = [''--vm_name=termina'', ''--target_container=work'',
                       ''--cwd=terminal_id:t1''],
               containerId = [(''containerName'', ''work''), (''vmName'', ''termina'')],
               hasCwd = True\<rparr>)"
    by simp
qed

text \<open>
  The claim as stated fails: a parent whose terminal info is \<^verbatim>\<open>{terminalId: 't1'}\<close> has no
  container id for the resolved one to equal, and yet the child, resolved to the default
  container, follows the parent's directory: the source compares with ``parent container id
  or the default container id''.
\<close>

theorem cwd_inherited_without_parent_container_counterexample:
  "getTerminalLaunchInfo (\<lambda>json. None)
     \<lparr>tab_id = 7, tab_windowId = 1, tracker_active = True,
      tracker_terminalInfo = \<lparr>terminalId = None, info_containerId = None,
                               tmuxDriverChannel = None\<rparr>,
      parentTerminal = Some \<lparr>tabId = 3, title = ''parent'',
        terminalInfo = \<lparr>terminalId = Some ''t1'',
          info_containerId = None,
          tmuxDriverChannel = None\<rparr>\<rparr>\<rparr>
     False
     \<lparr>host = ''terminal'', pathname = ''/html/terminal.html'',
      searchParams = []\<rparr> =
     Inr (Vsh \<lparr>args = [''--vm_name=termina'', ''--target_container=penguin'',
                       ''--cwd=terminal_id:t1''],
               containerId = [(''vmName'', ''termina''), (''containerName'', ''penguin'')],
               hasCwd = True\<rparr>) \<and>
   info_containerId \<lparr>terminalId = Some ''t1'', info_containerId = None,
                      tmuxDriverChannel = None\<rparr> = None"
  by (simp add: vsh_eval)

lemma vshLaunchInfo_inherits:
  assumes "\<forall>a\<in>set (searchParams_getAll urlParams ''args[]'').
             startsWith a ''--vm_name='' \<or> startsWith a ''--target_container='' \<longrightarrow>
             \<not> truthy_str (arg_value a)"
  shows "containerId (vshLaunchInfo pti urlParams) = parentContainerId pti"
proof -
  obtain cid0 where scan:
    "scanArgs (searchParams_getAll urlParams ''args[]'') ([], [], False, False) =
       (passthroughArgs (searchParams_getAll urlParams ''args[]''), cid0,
        suppliesCwd (searchParams_getAll urlParams ''args[]''),
        suppliesCwd (searchParams_getAll urlParams ''args[]''))"
    by (rule scanArgs_initial)
  from scanArgs_containerId_unchanged [OF assms, of "[]" "[]" False False] scan
  have "cid0 = []" by simp
  then show ?thesis
    by (simp add: vshLaunchInfo_def scan Let_def split: option.splits)
qed

text \<open>
  Claim C2, as the code has it. For a vsh resolution whose input \<^verbatim>\<open>args[]\<close> give no
  container id (every \<^verbatim>\<open>--vm_name=\<close> and \<^verbatim>\<open>--target_container=\<close> argument has an empty value),
  the resolved container id is the container id of the parent's terminal info exactly as it
  is stored there, with no field filled in, and the default
  \<^verbatim>\<open>{vmName:'termina', containerName:'penguin'}\<close> when there is no parent or the parent's
  terminal info has no container id. The output arguments are the passed-through ones
  followed by the flags of the resolved id (\<^verbatim>\<open>--vm_name=\<close> for a non-empty \<^verbatim>\<open>vmName\<close>,
  \<^verbatim>\<open>--target_container=\<close> for a non-empty \<^verbatim>\<open>containerName\<close>), and then at most the
  \<^verbatim>\<open>--cwd=terminal_id:\<close> argument.
\<close>

theorem container_id_inherited_as_stored:
  assumes "getTerminalLaunchInfo JSON_parse tracker flag url = Inr (Vsh vsh)"
    and "\<forall>a\<in>set (searchParams_getAll (searchParams url) ''args[]'').
           startsWith a ''--vm_name='' \<or> startsWith a ''--target_container='' \<longrightarrow>
           \<not> truthy_str (arg_value a)"
  shows
    "containerId vsh =
       (case parentTerminal tracker of
          None \<Rightarrow> [(''vmName'', ''termina''), (''containerName'', ''penguin'')]
        | Some parent \<Rightarrow>
            (case info_containerId (terminalInfo parent) of
               None \<Rightarrow> [(''vmName'', ''termina''), (''containerName'', ''penguin'')]
             | Some c \<Rightarrow> c)) \<and>
     (args vsh =
        passthroughArgs (searchParams_getAll (searchParams url) ''args[]'') @
        containerFlags (containerId vsh) \<or>
      (\<exists>tid. args vsh =
         passthroughArgs (searchParams_getAll (searchParams url) ''args[]'') @
         containerFlags (containerId vsh) @ [''--cwd=terminal_id:'' @ tid]))"
proof -
  define pti where "pti = map_option terminalInfo (parentTerminal tracker)"
  have vsh: "vsh = vshLaunchInfo pti (searchParams url)"
    unfolding pti_def using assms(1) by (rule getTerminalLaunchInfo_Vsh)
  have "containerId vsh = parentContainerId pti"
    unfolding vsh using assms(2) by (rule vshLaunchInfo_inherits)
  then have cid: "containerId vsh =
       (case parentTerminal tracker of
          None \<Rightarrow> [(''vmName'', ''termina''), (''containerName'', ''penguin'')]
        | Some parent \<Rightarrow>
            (case info_containerId (terminalInfo parent) of
               None \<Rightarrow> [(''vmName'', ''termina''), (''containerName'', ''penguin'')]
             | Some c \<Rightarrow> c))"
    by (simp add: pti_def parentContainerId_def defaultContainerId_def DEFAULT_VM_NAME_def
          DEFAULT_CONTAINER_NAME_def split: option.splits)
  let ?follows = "\<not> suppliesCwd (searchParams_getAll (searchParams url) ''args[]'') \<and>
              truthy_str (parentTerminalId pti) \<and>
              map_of (containerId (vshLaunchInfo pti (searchParams url))) ''vmName'' =
                map_of (parentContainerId pti) ''vmName'' \<and>
              map_of (containerId (vshLaunchInfo pti (searchParams url))) ''containerName'' =
                map_of (parentContainerId pti) ''containerName''"
  have "args vsh =
        passthroughArgs (searchParams_getAll (searchParams url) ''args[]'') @
        containerFlags (containerId vsh) \<or>
      (\<exists>tid. args vsh =
         passthroughArgs (searchParams_getAll (searchParams url) ''args[]'') @
         containerFlags (containerId vsh) @ [''--cwd=terminal_id:'' @ tid])"
  proof (cases ?follows)
    case True
    then obtain tid where tid: "parentTerminalId pti = Some tid" "tid \<noteq> []"
      unfolding truthy_str_def by (auto split: option.splits)
    from True have a: "\<not> suppliesCwd (searchParams_getAll (searchParams url) ''args[]'')"
      and b: "map_of (containerId (vshLaunchInfo pti (searchParams url))) ''vmName'' =
                map_of (parentContainerId pti) ''vmName''"
      and c: "map_of (containerId (vshLaunchInfo pti (searchParams url))) ''containerName'' =
                map_of (parentContainerId pti) ''containerName''"
      by simp_all
    from vshLaunchInfo_follows(1) [OF a tid b c] show ?thesis
      unfolding vsh by blast
  next
    case False
    from vshLaunchInfo_not_follows(1) [OF False] show ?thesis
      unfolding vsh by simp
  qed
  with cid show ?thesis by simp
qed

text \<open>
  The instance of the claim: parent container \<^verbatim>\<open>{vmName:'termina', containerName:'work'}\<close>
  and a child URL without container arguments give that container id and both flags.
\<close>

theorem container_id_inherited_as_stored_witness:
  "getTerminalLaunchInfo (\<lambda>text. None)
     \<lparr>tab_id = 7, tab_windowId = 1, tracker_active = True,
      tracker_terminalInfo = \<lparr>terminalId = None, info_containerId = None,
                               tmuxDriverChannel = None\<rparr>,
      parentTerminal = Some \<lparr>tabId = 3, title = ''parent'',
        terminalInfo = \<lparr>terminalId = Some ''t1'',
          info_containerId = Some [(''vmName'', ''termina''), (''containerName'', ''work'')],
          tmuxDriverChannel = None\<rparr>\<rparr>\<rparr>
     False
     \<lparr>host = ''terminal'', pathname = ''/html/terminal.html'',
      searchParams = [(''args[]'', ''--login'')]\<rparr> =
     Inr (Vsh \<lparr>args = [''--login'', ''--vm_name=termina'', ''--target_container=work'',
                       ''--cwd=terminal_id:t1''],
               containerId = [(''vmName'', ''termina''), (''containerName'', ''work'')],
               hasCwd = True\<rparr>) \<and>
   containerId \<lparr>args = [''--login'', ''--vm_name=termina'', ''--target_container=work'',
                       ''--cwd=terminal_id:t1''],
               containerId = [(''vmName'', ''termina''), (''containerName'', ''work'')],
               hasCwd = True\<rparr> =
     [(''vmName'', ''termina''), (''containerName'', ''work'')]"
proof -
  have res: "getTerminalLaunchInfo (\<lambda>text. None)
     \<lparr>tab_id = 7, tab_windowId = 1, tracker_active = True,
      tracker_terminalInfo = \<lparr>terminalId = None, info_containerId = None,
                               tmuxDriverChannel = None\<rparr>,
      parentTerminal = Some \<lparr>tabId = 3, title = ''parent'',
        terminalInfo = \<lparr>terminalId = Some ''t1'',
          info_containerId = Some [(''vmName'', ''termina''), (''containerName'', ''work'')],
          tmuxDriverChannel = None\<rparr>\<rparr>\<rparr>
     False
     \<lparr>host = ''terminal'', pathname = ''/html/terminal.html'',
      searchParams = [(''args[]'', ''--login'')]\<rparr> =
     Inr (Vsh \<lparr>args = [''--login'', ''--vm_name=termina'', ''--target_container=work'',
                       ''--cwd=terminal_id:t1''],
               containerId = [(''vmName'', ''termina''), (''containerName'', ''work'')],
               hasCwd = True\<rparr>)"
    by (simp add: vsh_eval)
  have none: "\<forall>a\<in>set (searchParams_getAll
                 (searchParams \<lparr>host = ''terminal'', pathname = ''/html/terminal.html'',
                                searchParams = [(''args[]'', ''--login'')]\<rparr>) ''args[]'').
           startsWith a ''--vm_name='' \<or> startsWith a ''--target_container='' \<longrightarrow>
           \<not> truthy_str (arg_value a)"
    by (simp add: searchParams_getAll_def startsWith_def)
  from container_id_inherited_as_stored [OF res none] res
  show ?thesis by simp
qed

text \<open>
  The claim as stated fails: a parent whose container id is \<^verbatim>\<open>{containerName:'work'}\<close> (what
  a tab opened with \<^verbatim>\<open>--target_container=work\<close> alone resolves to) hands that id to the child
  unchanged. The child's \<^verbatim>\<open>vmName\<close> is not defaulted to \<^verbatim>\<open>termina\<close> and no \<^verbatim>\<open>--vm_name=\<close> flag
  is appended.
\<close>

theorem container_id_not_canonicalized_counterexample:
  "getTerminalLaunchInfo (\<lambda>text. None)
     \<lparr>tab_id = 7, tab_windowId = 1, tracker_active = True,
      tracker_terminalInfo = \<lparr>terminalId = None, info_containerId = None,
                               tmuxDriverChannel = None\<rparr>,
      parentTerminal = Some \<lparr>tabId = 3, title = ''parent'',
        terminalInfo = \<lparr>terminalId = Some ''t1'',
          info_containerId = Some [(''containerName'', ''work'')],
          tmuxDriverChannel = None\<rparr>\<rparr>\<rparr>
     False
     \<lparr>host = ''terminal'', pathname = ''/html/terminal.html'', searchParams = []\<rparr> =
     Inr (Vsh \<lparr>args = [''--target_container=work'', ''--cwd=terminal_id:t1''],
               containerId = [(''containerName'', ''work'')], hasCwd = True\<rparr>) \<and>
   map_of [(''containerName'', ''work'')] ''vmName'' \<noteq> Some ''termina'' \<and>
   ''--vm_name=termina'' \<notin> set [''--target_container=work'', ''--cwd=terminal_id:t1'']"
  by (simp add: vsh_eval)

text \<open>
  Claim C4, as the code has it. The \<^verbatim>\<open>tmux\<close> parameter is the third step of the resolver's
  decision order: for a URL whose host is not \<^verbatim>\<open>crosh\<close> and whose path is not one of the
  two ssh paths, with tmux integration enabled and a \<^verbatim>\<open>tmux\<close> query parameter, the
  result is \<^verbatim>\<open>{tmux: parsed}\<close> when \<^verbatim>\<open>JSON.parse\<close> accepts the parameter, and the parse error
  itself when it does not: no other launch variant is returned.
\<close>

theorem tmux_param_parsed_or_fails:
  assumes "searchParams_get (searchParams url) TMUX_PARAM_NAME = Some text"
    and "host url \<noteq> ''crosh''"
    and "pathname url \<noteq> ''/html/terminal_ssh.html''"
    and "pathname url \<noteq> ''/html/nassh.html''"
  shows "getTerminalLaunchInfo JSON_parse tracker True url =
           (case JSON_parse text of
              None \<Rightarrow> Inl SyntaxError
            | Some v \<Rightarrow> Inr (Tmux v))"
  using assms
  unfolding getTerminalLaunchInfo_def searchParams_has_def searchParams_get_def
  by (simp add: Let_def)

theorem tmux_param_parsed_or_fails_witness:
  "getTerminalLaunchInfo (\<lambda>text. if text = ''{}'' then Some (JObj []) else None)
     \<lparr>tab_id = 7, tab_windowId = 1, tracker_active = True,
      tracker_terminalInfo = \<lparr>terminalId = None, info_containerId = None,
                               tmuxDriverChannel = None\<rparr>,
      parentTerminal = None\<rparr>
     True
     \<lparr>host = ''terminal'', pathname = ''/html/terminal.html'',
      searchParams = [(''tmux'', ''{'')]\<rparr> = Inl SyntaxError \<and>
   getTerminalLaunchInfo (\<lambda>text. if text = ''{}'' then Some (JObj []) else None)
     \<lparr>tab_id = 7, tab_windowId = 1, tracker_active = True,
      tracker_terminalInfo = \<lparr>terminalId = None, info_containerId = None,
                               tmuxDriverChannel = None\<rparr>,
      parentTerminal = None\<rparr>
     True
     \<lparr>host = ''terminal'', pathname = ''/html/terminal.html'',
      searchParams = [(''tmux'', ''{}'')]\<rparr> = Inr (Tmux (JObj []))"
proof (rule conjI)
  have "searchParams_get
          (searchParams \<lparr>host = ''terminal'', pathname = ''/html/terminal.html'',
                         searchParams = [(''tmux'', ''{'')]\<rparr>) TMUX_PARAM_NAME = Some ''{''"
    by (simp add: searchParams_get_def TMUX_PARAM_NAME_def)
  from tmux_param_parsed_or_fails [OF this,
      of "\<lambda>text. if text = ''{}'' then Some (JObj []) else None"]
  show "getTerminalLaunchInfo (\<lambda>text. if text = ''{}'' then Some (JObj []) else None)
     \<lparr>tab_id = 7, tab_windowId = 1, tracker_active = True,
      tracker_terminalInfo = \<lparr>terminalId = None, info_containerId = None,
                               tmuxDriverChannel = None\<rparr>,
      parentTerminal = None\<rparr>
     True
     \<lparr>host = ''terminal'', pathname = ''/html/terminal.html'',
      searchParams = [(''tmux'', ''{'')]\<rparr> = Inl SyntaxError"
    by simp
next
  have "searchParams_get
          (searchParams \<lparr>host = ''terminal'', pathname = ''/html/terminal.html'',
                         searchParams = [(''tmux'', ''{}'')]\<rparr>) TMUX_PARAM_NAME = Some ''{}''"
    by (simp add: searchParams_get_def TMUX_PARAM_NAME_def)
  from tmux_param_parsed_or_fails [OF this,
      of "\<lambda>text. if text = ''{}'' then Some (JObj []) else None"]
  show "getTerminalLaunchInfo (\<lambda>text. if text = ''{}'' then Some (JObj []) else None)
     \<lparr>tab_id = 7, tab_windowId = 1, tracker_active = True,
      tracker_terminalInfo = \<lparr>terminalId = None, info_containerId = None,
                               tmuxDriverChannel = None\<rparr>,
      parentTerminal = None\<rparr>
     True
     \<lparr>host = ''terminal'', pathname = ''/html/terminal.html'',
      searchParams = [(''tmux'', ''{}'')]\<rparr> = Inr (Tmux (JObj []))"
    by simp
qed

text \<open>
  The claim as stated fails: the host and the path are examined first, so a \<^verbatim>\<open>crosh\<close>
  URL and an ssh URL with a malformed \<^verbatim>\<open>tmux\<close> parameter resolve to their own variants, and
  the parameter is never parsed.
\<close>

theorem tmux_param_not_read_counterexample:
  "getTerminalLaunchInfo (\<lambda>json. None)
     \<lparr>tab_id = 7, tab_windowId = 1, tracker_active = True,
      tracker_terminalInfo = \<lparr>terminalId = None, info_containerId = None,
                               tmuxDriverChannel = None\<rparr>,
      parentTerminal = None\<rparr>
     True
     \<lparr>host = ''crosh'', pathname = ''/html/terminal.html'',
      searchParams = [(''tmux'', ''{'')]\<rparr> = Inr Crosh \<and>
   getTerminalLaunchInfo (\<lambda>json. None)
     \<lparr>tab_id = 7, tab_windowId = 1, tracker_active = True,
      tracker_terminalInfo = \<lparr>terminalId = None, info_containerId = None,
                               tmuxDriverChannel = None\<rparr>,
      parentTerminal = None\<rparr>
     True
     \<lparr>host = ''terminal'', pathname = ''/html/terminal_ssh.html'',
      searchParams = [(''tmux'', ''{'')]\<rparr> = Inr Ssh"
  by (simp add: getTerminalLaunchInfo_def)

text \<open>
  Claim C8. The result of the resolver is determined by the URL, the parent's terminal info
  and the tmux-integration flag: two invocations on trackers that agree on the parent's
  terminal info (and may differ in everything else: the tab, the window, the active flag,
  the tab's own terminal info, the parent's tab and title) give the same result.
\<close>

theorem resolution_depends_only_on_inputs:
  assumes "map_option terminalInfo (parentTerminal tracker1) =
           map_option terminalInfo (parentTerminal tracker2)"
  shows "getTerminalLaunchInfo JSON_parse tracker1 isTmuxIntegrationEnabled url =
         getTerminalLaunchInfo JSON_parse tracker2 isTmuxIntegrationEnabled url"
  unfolding getTerminalLaunchInfo_def using assms by simp

theorem resolution_depends_only_on_inputs_witness:
  "getTerminalLaunchInfo (\<lambda>text. None)
     \<lparr>tab_id = 7, tab_windowId = 1, tracker_active = True,
      tracker_terminalInfo = \<lparr>terminalId = Some ''t7'', info_containerId = None,
                               tmuxDriverChannel = None\<rparr>,
      parentTerminal = Some \<lparr>tabId = 3, title = ''first'',
        terminalInfo = \<lparr>terminalId = Some ''t1'',
          info_containerId = Some [(''vmName'', ''termina''), (''containerName'', ''work'')],
          tmuxDriverChannel = None\<rparr>\<rparr>\<rparr>
     False
     \<lparr>host = ''terminal'', pathname = ''/html/terminal.html'',
      searchParams = [(''args[]'', ''--login'')]\<rparr> =
   getTerminalLaunchInfo (\<lambda>text. None)
     \<lparr>tab_id = 9, tab_windowId = 2, tracker_active = False,
      tracker_terminalInfo = \<lparr>terminalId = None, info_containerId = None,
                               tmuxDriverChannel = None\<rparr>,
      parentTerminal = Some \<lparr>tabId = 4, title = ''second'',
        terminalInfo = \<lparr>terminalId = Some ''t1'',
          info_containerId = Some [(''vmName'', ''termina''), (''containerName'', ''work'')],
          tmuxDriverChannel = None\<rparr>\<rparr>\<rparr>
     False
     \<lparr>host = ''terminal'', pathname = ''/html/terminal.html'',
      searchParams = [(''args[]'', ''--login'')]\<rparr>"
  by (rule resolution_depends_only_on_inputs) simp

text \<open>
  Claim C10. For a URL whose host is not \<^verbatim>\<open>crosh\<close> and whose path is
  \<^verbatim>\<open>/html/terminal_ssh.html\<close> or \<^verbatim>\<open>/html/nassh.html\<close>, the resolver returns \<^verbatim>\<open>{ssh: {}}\<close>,
  whatever the query parameters, the parent and the tmux-integration flag are.
\<close>

theorem ssh_paths_resolve_to_ssh:
  assumes "host url \<noteq> ''crosh''"
    and "pathname url = ''/html/terminal_ssh.html'' \<or> pathname url = ''/html/nassh.html''"
  shows "getTerminalLaunchInfo JSON_parse tracker isTmuxIntegrationEnabled url = Inr Ssh"
  using assms unfolding getTerminalLaunchInfo_def by auto

theorem ssh_paths_resolve_to_ssh_witness:
  "host \<lparr>host = ''terminal'', pathname = ''/html/nassh.html'',
          searchParams = [(''tmux'', ''{''), (''args[]'', ''--cwd=/tmp'')]\<rparr> \<noteq> ''crosh'' \<and>
   getTerminalLaunchInfo (\<lambda>text. None)
     \<lparr>tab_id = 7, tab_windowId = 1, tracker_active = True,
      tracker_terminalInfo = \<lparr>terminalId = None, info_containerId = None,
                               tmuxDriverChannel = None\<rparr>,
      parentTerminal = Some \<lparr>tabId = 3, title = ''parent'',
        terminalInfo = \<lparr>terminalId = Some ''t1'', info_containerId = None,
                         tmuxDriverChannel = Some ''channel''\<rparr>\<rparr>\<rparr>
     True
     \<lparr>host = ''terminal'', pathname = ''/html/nassh.html'',
      searchParams = [(''tmux'', ''{''), (''args[]'', ''--cwd=/tmp'')]\<rparr> = Inr Ssh"
  using ssh_paths_resolve_to_ssh
    [of "\<lparr>host = ''terminal'', pathname = ''/html/nassh.html'',
          searchParams = [(''tmux'', ''{''), (''args[]'', ''--cwd=/tmp'')]\<rparr>"]
  by simp

section \<open>The title cache: the claims\<close>

text \<open>
  Claim C6. Two container ids with the same \<^verbatim>\<open>containerName\<close> and the same \<^verbatim>\<open>vmName\<close> have
  the same cache key, in whatever order their properties were inserted; the key is
  \<^verbatim>\<open>cachedInitialTitle-\<close> followed by the JSON object text with \<^verbatim>\<open>containerName\<close> before
  \<^verbatim>\<open>vmName\<close>.
\<close>

theorem cache_key_ignores_insertion_order:
  assumes "map_of cid1 ''containerName'' = map_of cid2 ''containerName''"
    and "map_of cid1 ''vmName'' = map_of cid2 ''vmName''"
  shows "getInitialTitleCacheKey cid1 = getInitialTitleCacheKey cid2 \<and>
         getInitialTitleCacheKey cid1 =
           ''cachedInitialTitle-'' @ ''{'' @
             join '',''
               ((case map_of cid1 ''containerName'' of
                   None \<Rightarrow> []
                 | Some c \<Rightarrow> [QuoteJSONString ''containerName'' @ '':'' @ QuoteJSONString c]) @
                (case map_of cid1 ''vmName'' of
                   None \<Rightarrow> []
                 | Some v \<Rightarrow> [QuoteJSONString ''vmName'' @ '':'' @ QuoteJSONString v])) @
             ''}''"
proof -
  have "serializeMembers cid1 [''containerName'', ''vmName''] =
        serializeMembers cid2 [''containerName'', ''vmName'']"
    using assms by (intro serializeMembers_cong) auto
  then have same: "getInitialTitleCacheKey cid1 = getInitialTitleCacheKey cid2"
    by (simp add: getInitialTitleCacheKey_def JSON_stringify_def)
  have shape: "serializeMembers cid1 [''containerName'', ''vmName''] =
      (case map_of cid1 ''containerName'' of
         None \<Rightarrow> []
       | Some c \<Rightarrow> [QuoteJSONString ''containerName'' @ '':'' @ QuoteJSONString c]) @
      (case map_of cid1 ''vmName'' of
         None \<Rightarrow> []
       | Some v \<Rightarrow> [QuoteJSONString ''vmName'' @ '':'' @ QuoteJSONString v])"
    by (simp split: option.splits)
  show ?thesis
    using same shape by (simp add: getInitialTitleCacheKey_def JSON_stringify_def)
qed

theorem cache_key_ignores_insertion_order_witness:
  "getInitialTitleCacheKey [(''vmName'', ''termina''), (''containerName'', ''penguin'')] =
   getInitialTitleCacheKey [(''containerName'', ''penguin''), (''vmName'', ''termina'')] \<and>
   getInitialTitleCacheKey [(''vmName'', ''termina''), (''containerName'', ''penguin'')] =
     ''cachedInitialTitle-{'' @ [CHR 0x22] @ ''containerName'' @ [CHR 0x22] @ '':'' @
       [CHR 0x22] @ ''penguin'' @ [CHR 0x22] @ '','' @ [CHR 0x22] @ ''vmName'' @ [CHR 0x22] @
       '':'' @ [CHR 0x22] @ ''termina'' @ [CHR 0x22] @ ''}''"
proof -
  have cn: "map_of [(''vmName'', ''termina''), (''containerName'', ''penguin'')] ''containerName'' =
            map_of [(''containerName'', ''penguin''), (''vmName'', ''termina'')] ''containerName''"
    by simp
  have vm: "map_of [(''vmName'', ''termina''), (''containerName'', ''penguin'')] ''vmName'' =
            map_of [(''containerName'', ''penguin''), (''vmName'', ''termina'')] ''vmName''"
    by simp
  note key = cache_key_ignores_insertion_order [OF cn vm]
  show ?thesis
  proof (rule conjI)
    show "getInitialTitleCacheKey [(''vmName'', ''termina''), (''containerName'', ''penguin'')] =
          getInitialTitleCacheKey [(''containerName'', ''penguin''), (''vmName'', ''termina'')]"
      using key by (rule conjunct1)
  next
    show "getInitialTitleCacheKey [(''vmName'', ''termina''), (''containerName'', ''penguin'')] =
     ''cachedInitialTitle-{'' @ [CHR 0x22] @ ''containerName'' @ [CHR 0x22] @ '':'' @
       [CHR 0x22] @ ''penguin'' @ [CHR 0x22] @ '','' @ [CHR 0x22] @ ''vmName'' @ [CHR 0x22] @
       '':'' @ [CHR 0x22] @ ''termina'' @ [CHR 0x22] @ ''}''"
      using key [THEN conjunct2] by (simp add: QuoteJSONString_def quoteChar_def)
  qed
qed

section \<open>The tracker: the claims\<close>

lemma recordTabId_activeTerminal_json [simp]:
  "recordTabId (activeTerminal_json n t ti) = Some n"
  by (simp add: activeTerminal_json_def)

text \<open>
  Claim C3. After \<^verbatim>\<open>maybeUpdateWindowActiveTerminal()\<close> the record persisted for the window
  is \<^verbatim>\<open>{tabId, title, terminalInfo}\<close> of this tab if and only if the tab is marked active and
  its terminal info has a non-empty \<^verbatim>\<open>terminalId\<close>. In every other case no record naming this
  tab is left; a record that named this tab is removed, and a record that does not name it
  (another tab's, a malformed one, none) is left as it is. The records of other windows, the
  title cache and the document's title are never touched. The tracker is modelled from the
  spec.
\<close>

theorem maybeUpdate_writes_iff_active_with_terminalId:
  "let w' = maybeUpdateWindowActiveTerminal tracker w;
       eligible = (tracker_active tracker \<and>
                   truthy_str (terminalId (tracker_terminalInfo tracker)));
       record = Parsed (activeTerminal_json (tab_id tracker) (document_title w)
                          (tracker_terminalInfo tracker))
   in (windowRecords w' (tab_windowId tracker) = Some record \<longleftrightarrow> eligible) \<and>
      (\<not> eligible \<longrightarrow> \<not> namesThisTab tracker w') \<and>
      (\<not> eligible \<and> namesThisTab tracker w \<longrightarrow>
         windowRecords w' (tab_windowId tracker) = None) \<and>
      (\<not> eligible \<and> \<not> namesThisTab tracker w \<longrightarrow> w' = w) \<and>
      (\<forall>other. other \<noteq> tab_windowId tracker \<longrightarrow>
         windowRecords w' other = windowRecords w other) \<and>
      localStorage w' = localStorage w \<and> document_title w' = document_title w"
  unfolding Let_def maybeUpdateWindowActiveTerminal_def clearWindowRecord_def
    namesThisTab_def getWindowActiveTerminal_def
  by (auto split: option.splits stored.splits)

text \<open>
  The tracker's test of \<^verbatim>\<open>maybeUpdateWindowActiveTerminal()\<close>: an active tab with a terminal
  id writes its record; an inactive tab leaves another tab's record alone; a tab without
  terminal id removes the record that names it.
\<close>

theorem maybeUpdate_writes_iff_active_with_terminalId_witness:
  "getWindowActiveTerminal
     \<lparr>tab_id = 7, tab_windowId = 1, tracker_active = True,
      tracker_terminalInfo = \<lparr>terminalId = Some ''terminalId-123'', info_containerId = None,
                               tmuxDriverChannel = None\<rparr>,
      parentTerminal = None\<rparr>
     (maybeUpdateWindowActiveTerminal
        \<lparr>tab_id = 7, tab_windowId = 1, tracker_active = True,
         tracker_terminalInfo = \<lparr>terminalId = Some ''terminalId-123'', info_containerId = None,
                                  tmuxDriverChannel = None\<rparr>,
         parentTerminal = None\<rparr>
        \<lparr>localStorage = Map.empty, windowRecords = Map.empty,
         document_title = ''Terminal''\<rparr>) =
     JObj [(''tabId'', JNum 7), (''title'', JStr ''Terminal''),
           (''terminalInfo'', JObj [(''terminalId'', JStr ''terminalId-123'')])] \<and>
   maybeUpdateWindowActiveTerminal
     \<lparr>tab_id = 7, tab_windowId = 1, tracker_active = False,
      tracker_terminalInfo = \<lparr>terminalId = Some ''terminalId-123'', info_containerId = None,
                               tmuxDriverChannel = None\<rparr>,
      parentTerminal = None\<rparr>
     \<lparr>localStorage = Map.empty,
      windowRecords = [1 \<mapsto> Parsed (JObj [(''tabId'', JNum 8), (''terminalInfo'', JObj [])])],
      document_title = ''Terminal''\<rparr> =
     \<lparr>localStorage = Map.empty,
      windowRecords = [1 \<mapsto> Parsed (JObj [(''tabId'', JNum 8), (''terminalInfo'', JObj [])])],
      document_title = ''Terminal''\<rparr> \<and>
   windowRecords
     (maybeUpdateWindowActiveTerminal
        \<lparr>tab_id = 7, tab_windowId = 1, tracker_active = True,
         tracker_terminalInfo = \<lparr>terminalId = None, info_containerId = None,
                                  tmuxDriverChannel = None\<rparr>,
         parentTerminal = None\<rparr>
        \<lparr>localStorage = Map.empty,
         windowRecords = [1 \<mapsto> Parsed (JObj [(''tabId'', JNum 7)])],
         document_title = ''Terminal''\<rparr>) 1 = None"
proof (intro conjI)
  from maybeUpdate_writes_iff_active_with_terminalId
    [of "\<lparr>tab_id = 7, tab_windowId = 1, tracker_active = True,
         tracker_terminalInfo = \<lparr>terminalId = Some ''terminalId-123'', info_containerId = None,
                                  tmuxDriverChannel = None\<rparr>,
         parentTerminal = None\<rparr>"
        "\<lparr>localStorage = Map.empty, windowRecords = Map.empty,
         document_title = ''Terminal''\<rparr>"]
  show "getWindowActiveTerminal
     \<lparr>tab_id = 7, tab_windowId = 1, tracker_active = True,
      tracker_terminalInfo = \<lparr>terminalId = Some ''terminalId-123'', info_containerId = None,
                               tmuxDriverChannel = None\<rparr>,
      parentTerminal = None\<rparr>
     (maybeUpdateWindowActiveTerminal
        \<lparr>tab_id = 7, tab_windowId = 1, tracker_active = True,
         tracker_terminalInfo = \<lparr>terminalId = Some ''terminalId-123'', info_containerId = None,
                                  tmuxDriverChannel = None\<rparr>,
         parentTerminal = None\<rparr>
        \<lparr>localStorage = Map.empty, windowRecords = Map.empty,
         document_title = ''Terminal''\<rparr>) =
     JObj [(''tabId'', JNum 7), (''title'', JStr ''Terminal''),
           (''terminalInfo'', JObj [(''terminalId'', JStr ''terminalId-123'')])]"
    by (simp add: Let_def truthy_str_def getWindowActiveTerminal_def activeTerminal_json_def
          terminalInfo_json_def optionalProperty_def)
next
  from maybeUpdate_writes_iff_active_with_terminalId
    [of "\<lparr>tab_id = 7, tab_windowId = 1, tracker_active = False,
         tracker_terminalInfo = \<lparr>terminalId = Some ''terminalId-123'', info_containerId = None,
                                  tmuxDriverChannel = None\<rparr>,
         parentTerminal = None\<rparr>"
        "\<lparr>localStorage = Map.empty,
      windowRecords = [1 \<mapsto> Parsed (JObj [(''tabId'', JNum 8), (''terminalInfo'', JObj [])])],
      document_title = ''Terminal''\<rparr>"]
  show "maybeUpdateWindowActiveTerminal
     \<lparr>tab_id = 7, tab_windowId = 1, tracker_active = False,
      tracker_terminalInfo = \<lparr>terminalId = Some ''terminalId-123'', info_containerId = None,
                               tmuxDriverChannel = None\<rparr>,
      parentTerminal = None\<rparr>
     \<lparr>localStorage = Map.empty,
      windowRecords = [1 \<mapsto> Parsed (JObj [(''tabId'', JNum 8), (''terminalInfo'', JObj [])])],
      document_title = ''Terminal''\<rparr> =
     \<lparr>localStorage = Map.empty,
      windowRecords = [1 \<mapsto> Parsed (JObj [(''tabId'', JNum 8), (''terminalInfo'', JObj [])])],
      document_title = ''Terminal''\<rparr>"
    by (simp add: Let_def namesThisTab_def getWindowActiveTerminal_def)
next
  from maybeUpdate_writes_iff_active_with_terminalId
    [of "\<lparr>tab_id = 7, tab_windowId = 1, tracker_active = True,
         tracker_terminalInfo = \<lparr>terminalId = None, info_containerId = None,
                                  tmuxDriverChannel = None\<rparr>,
         parentTerminal = None\<rparr>"
        "\<lparr>localStorage = Map.empty,
         windowRecords = [1 \<mapsto> Parsed (JObj [(''tabId'', JNum 7)])],
         document_title = ''Terminal''\<rparr>"]
  show "windowRecords
     (maybeUpdateWindowActiveTerminal
        \<lparr>tab_id = 7, tab_windowId = 1, tracker_active = True,
         tracker_terminalInfo = \<lparr>terminalId = None, info_containerId = None,
                                  tmuxDriverChannel = None\<rparr>,
         parentTerminal = None\<rparr>
        \<lparr>localStorage = Map.empty,
         windowRecords = [1 \<mapsto> Parsed (JObj [(''tabId'', JNum 7)])],
         document_title = ''Terminal''\<rparr>) 1 = None"
    by (simp add: Let_def truthy_str_def namesThisTab_def getWindowActiveTerminal_def)
qed

text \<open>
  Claim C5. \<^verbatim>\<open>onUnload_()\<close> leaves everything as it is when the \<^verbatim>\<open>tabId\<close> of the record
  persisted for the window is not this tab's id; the record is cleared when it is, and a
  change of the window's record implies that it named this tab. Other windows' records and
  the title cache are not touched. The tracker is modelled from the spec.
\<close>

theorem onUnload_clears_only_own_record:
  "(recordTabId (getWindowActiveTerminal tracker w) \<noteq> Some (tab_id tracker) \<longrightarrow>
      onUnload tracker w = w) \<and>
   (recordTabId (getWindowActiveTerminal tracker w) = Some (tab_id tracker) \<longrightarrow>
      windowRecords (onUnload tracker w) (tab_windowId tracker) = None) \<and>
   (windowRecords (onUnload tracker w) (tab_windowId tracker) \<noteq>
      windowRecords w (tab_windowId tracker) \<longrightarrow>
    recordTabId (getWindowActiveTerminal tracker w) = Some (tab_id tracker)) \<and>
   (\<forall>other. other \<noteq> tab_windowId tracker \<longrightarrow>
      windowRecords (onUnload tracker w) other = windowRecords w other) \<and>
   localStorage (onUnload tracker w) = localStorage w"
  unfolding onUnload_def clearWindowRecord_def namesThisTab_def
  by auto

text \<open>
  The tracker's test of \<^verbatim>\<open>onUnload_()\<close>: the record \<^verbatim>\<open>{tabId: 8, terminalInfo: {}}\<close> survives
  the unload of tab 7, the record \<^verbatim>\<open>{tabId: 7}\<close> does not.
\<close>

theorem onUnload_clears_only_own_record_witness:
  "onUnload
     \<lparr>tab_id = 7, tab_windowId = 1, tracker_active = True,
      tracker_terminalInfo = \<lparr>terminalId = None, info_containerId = None,
                               tmuxDriverChannel = None\<rparr>,
      parentTerminal = None\<rparr>
     \<lparr>localStorage = Map.empty,
      windowRecords = [1 \<mapsto> Parsed (JObj [(''tabId'', JNum 8), (''terminalInfo'', JObj [])])],
      document_title = ''Terminal''\<rparr> =
     \<lparr>localStorage = Map.empty,
      windowRecords = [1 \<mapsto> Parsed (JObj [(''tabId'', JNum 8), (''terminalInfo'', JObj [])])],
      document_title = ''Terminal''\<rparr> \<and>
   windowRecords
     (onUnload
        \<lparr>tab_id = 7, tab_windowId = 1, tracker_active = True,
         tracker_terminalInfo = \<lparr>terminalId = None, info_containerId = None,
                                  tmuxDriverChannel = None\<rparr>,
         parentTerminal = None\<rparr>
        \<lparr>localStorage = Map.empty,
         windowRecords = [1 \<mapsto> Parsed (JObj [(''tabId'', JNum 7)])],
         document_title = ''Terminal''\<rparr>) 1 = None"
proof (intro conjI)
  from onUnload_clears_only_own_record
    [of "\<lparr>tab_id = 7, tab_windowId = 1, tracker_active = True,
         tracker_terminalInfo = \<lparr>terminalId = None, info_containerId = None,
                                  tmuxDriverChannel = None\<rparr>,
         parentTerminal = None\<rparr>"
        "\<lparr>localStorage = Map.empty,
      windowRecords = [1 \<mapsto> Parsed (JObj [(''tabId'', JNum 8), (''terminalInfo'', JObj [])])],
      document_title = ''Terminal''\<rparr>"]
  show "onUnload
     \<lparr>tab_id = 7, tab_windowId = 1, tracker_active = True,
      tracker_terminalInfo = \<lparr>terminalId = None, info_containerId = None,
                               tmuxDriverChannel = None\<rparr>,
      parentTerminal = None\<rparr>
     \<lparr>localStorage = Map.empty,
      windowRecords = [1 \<mapsto> Parsed (JObj [(''tabId'', JNum 8), (''terminalInfo'', JObj [])])],
      document_title = ''Terminal''\<rparr> =
     \<lparr>localStorage = Map.empty,
      windowRecords = [1 \<mapsto> Parsed (JObj [(''tabId'', JNum 8), (''terminalInfo'', JObj [])])],
      document_title = ''Terminal''\<rparr>"
    by (simp add: getWindowActiveTerminal_def)
next
  from onUnload_clears_only_own_record
    [of "\<lparr>tab_id = 7, tab_windowId = 1, tracker_active = True,
         tracker_terminalInfo = \<lparr>terminalId = None, info_containerId = None,
                                  tmuxDriverChannel = None\<rparr>,
         parentTerminal = None\<rparr>"
        "\<lparr>localStorage = Map.empty,
         windowRecords = [1 \<mapsto> Parsed (JObj [(''tabId'', JNum 7)])],
         document_title = ''Terminal''\<rparr>"]
  show "windowRecords
     (onUnload
        \<lparr>tab_id = 7, tab_windowId = 1, tracker_active = True,
         tracker_terminalInfo = \<lparr>terminalId = None, info_containerId = None,
                                  tmuxDriverChannel = None\<rparr>,
         parentTerminal = None\<rparr>
        \<lparr>localStorage = Map.empty,
         windowRecords = [1 \<mapsto> Parsed (JObj [(''tabId'', JNum 7)])],
         document_title = ''Terminal''\<rparr>) 1 = None"
    by (simp add: getWindowActiveTerminal_def)
qed

section \<open>The title handler: the claims\<close>

lemma maybeUpdate_localStorage [simp]:
  "localStorage (maybeUpdateWindowActiveTerminal tracker w) = localStorage w"
  by (simp add: maybeUpdateWindowActiveTerminal_def clearWindowRecord_def)

lemma titleObserver_later:
  assumes "\<not> isFirstTitle ob"
  shows "\<not> isFirstTitle (fst (titleObserver tracker textContent (ob, w)))"
    and "localStorage (snd (titleObserver tracker textContent (ob, w))) = localStorage w"
  using assms by (simp_all add: titleObserver_def)

lemma runTitleMutations_later:
  assumes "\<not> isFirstTitle ob"
  shows "localStorage (snd (runTitleMutations events (ob, w))) = localStorage w"
  using assms
proof (induction events arbitrary: ob w)
  case Nil
  then show ?case by simp
next
  case (Cons event events)
  obtain tracker doc_title textContent where event: "event = (tracker, doc_title, textContent)"
    by (cases event)
  obtain ob' w' where step:
    "titleObserver tracker textContent (ob, w\<lparr>document_title := doc_title\<rparr>) = (ob', w')"
    by (cases "titleObserver tracker textContent (ob, w\<lparr>document_title := doc_title\<rparr>)")
  from titleObserver_later [OF Cons.prems, of tracker textContent "w\<lparr>document_title := doc_title\<rparr>"] step
  have "\<not> isFirstTitle ob'" and "localStorage w' = localStorage w" by simp_all
  with Cons.IH [of ob' w'] show ?case by (simp add: event step)
qed

lemma runTitleMutations_snoc:
  "runTitleMutations (events @ [(tracker, doc_title, textContent)]) st =
     (case runTitleMutations events st of
        (ob, w) \<Rightarrow> titleObserver tracker textContent (ob, w\<lparr>document_title := doc_title\<rparr>))"
  by (induction events st rule: runTitleMutations.induct) (auto split: prod.splits)

lemma getInitialTitleCacheKey_cong:
  assumes "map_of cid1 ''containerName'' = map_of cid2 ''containerName''"
    and "map_of cid1 ''vmName'' = map_of cid2 ''vmName''"
  shows "getInitialTitleCacheKey cid1 = getInitialTitleCacheKey cid2"
proof -
  have "serializeMembers cid1 [''containerName'', ''vmName''] =
        serializeMembers cid2 [''containerName'', ''vmName'']"
    using assms by (intro serializeMembers_cong) auto
  then show ?thesis
    by (simp add: getInitialTitleCacheKey_def JSON_stringify_def)
qed

text \<open>
  Claim C7. A session on container \<^verbatim>\<open>{vmName:'termina', containerName:'penguin'}\<close> whose
  launch has no cwd argument sees its first title mutation with the text \<^verbatim>\<open>foo\<close>. A tab
  that then sets up its title handler for a vsh launch on the same container id (in any
  property order), with no parent terminal, gets the document title \<^verbatim>\<open>foo\<close>.
\<close>

theorem title_cache_roundtrip:
  assumes "resolveLaunchInfo JSON_parse tracker1 flag1 url1 launchInfo1 = Inr (Vsh vsh1)"
    and "\<not> hasCwd vsh1"
    and "map_of (containerId vsh1) ''vmName'' = Some ''termina''"
    and "map_of (containerId vsh1) ''containerName'' = Some ''penguin''"
    and "setUpTitleHandler JSON_parse tracker1 flag1 url1 launchInfo1 w0 = Inr (Some ob1, w1)"
    and "titleObserver tracker1' ''foo'' (ob1, wa) = (ob1', wb)"
    and "resolveLaunchInfo JSON_parse tracker2 flag2 url2 launchInfo2 = Inr (Vsh vsh2)"
    and "map_of (containerId vsh2) ''vmName'' = Some ''termina''"
    and "map_of (containerId vsh2) ''containerName'' = Some ''penguin''"
    and "parentTerminal tracker2 = None"
  shows "\<exists>ob2. setUpTitleHandler JSON_parse tracker2 flag2 url2 launchInfo2 wb =
                 Inr (Some ob2, wb\<lparr>document_title := ''foo''\<rparr>)"
proof -
  have key: "getInitialTitleCacheKey (containerId vsh2) =
             getInitialTitleCacheKey (containerId vsh1)"
    using assms(3,4,8,9) by (intro getInitialTitleCacheKey_cong) simp_all
  from assms(1,5) have ob1: "ob1 = \<lparr>observer_hasCwd = hasCwd vsh1,
                         observer_key = getInitialTitleCacheKey (containerId vsh1),
                         isFirstTitle = True\<rparr>"
    by (simp add: setUpTitleHandler_def)
  from assms(6) have "localStorage wb = (localStorage wa)
                        (getInitialTitleCacheKey (containerId vsh1) \<mapsto> ''foo'')"
    using assms(2) by (auto simp: titleObserver_def ob1)
  then have "localStorage wb (getInitialTitleCacheKey (containerId vsh2)) = Some ''foo''"
    by (simp add: key)
  then have "initialVshTitle tracker2 vsh2 wb = wb\<lparr>document_title := ''foo''\<rparr>"
    by (simp add: initialVshTitle_def assms(10))
  then show ?thesis
    by (simp add: setUpTitleHandler_def assms(7))
qed

theorem title_cache_roundtrip_witness:
  "\<exists>ob2.
     setUpTitleHandler (\<lambda>json. None)
       \<lparr>tab_id = 9, tab_windowId = 2, tracker_active = True,
        tracker_terminalInfo = \<lparr>terminalId = None, info_containerId = None,
                                 tmuxDriverChannel = None\<rparr>,
        parentTerminal = None\<rparr>
       False
       \<lparr>host = ''terminal'', pathname = ''/html/terminal.html'', searchParams = []\<rparr>
       (Some (Vsh \<lparr>args = [], containerId = [(''containerName'', ''penguin''), (''vmName'', ''termina'')],
          hasCwd = False\<rparr>))
       (snd (titleObserver
        \<lparr>tab_id = 7, tab_windowId = 1, tracker_active = True,
        tracker_terminalInfo = \<lparr>terminalId = Some ''t7'', info_containerId = None,
                                 tmuxDriverChannel = None\<rparr>,
        parentTerminal = None\<rparr>
        ''foo''
        (\<lparr>observer_hasCwd = False,
        observer_key =
          getInitialTitleCacheKey [(''vmName'', ''termina''), (''containerName'', ''penguin'')],
        isFirstTitle = True\<rparr>,
         \<lparr>localStorage = Map.empty, windowRecords = Map.empty, document_title = ''foo''\<rparr>))) =
     Inr (Some ob2,
       (snd (titleObserver
        \<lparr>tab_id = 7, tab_windowId = 1, tracker_active = True,
        tracker_terminalInfo = \<lparr>terminalId = Some ''t7'', info_containerId = None,
                                 tmuxDriverChannel = None\<rparr>,
        parentTerminal = None\<rparr>
        ''foo''
        (\<lparr>observer_hasCwd = False,
        observer_key =
          getInitialTitleCacheKey [(''vmName'', ''termina''), (''containerName'', ''penguin'')],
        isFirstTitle = True\<rparr>,
         \<lparr>localStorage = Map.empty, windowRecords = Map.empty, document_title = ''foo''\<rparr>)))\<lparr>document_title := ''foo''\<rparr>)"
proof -
  have r1: "resolveLaunchInfo (\<lambda>json. None)
       \<lparr>tab_id = 7, tab_windowId = 1, tracker_active = True,
        tracker_terminalInfo = \<lparr>terminalId = Some ''t7'', info_containerId = None,
                                 tmuxDriverChannel = None\<rparr>,
        parentTerminal = None\<rparr>
       False
       \<lparr>host = ''terminal'', pathname = ''/html/terminal.html'', searchParams = []\<rparr>
       None =
     Inr (Vsh \<lparr>args = [''--vm_name=termina'', ''--target_container=penguin''],
          containerId = [(''vmName'', ''termina''), (''containerName'', ''penguin'')],
          hasCwd = False\<rparr>)"
    by (simp add: resolveLaunchInfo_def vsh_eval)
  have s1: "setUpTitleHandler (\<lambda>json. None)
       \<lparr>tab_id = 7, tab_windowId = 1, tracker_active = True,
        tracker_terminalInfo = \<lparr>terminalId = Some ''t7'', info_containerId = None,
                                 tmuxDriverChannel = None\<rparr>,
        parentTerminal = None\<rparr>
       False
       \<lparr>host = ''terminal'', pathname = ''/html/terminal.html'', searchParams = []\<rparr>
       None
       \<lparr>localStorage = Map.empty, windowRecords = Map.empty, document_title = ''Terminal''\<rparr> =
     Inr (Some \<lparr>observer_hasCwd = False,
        observer_key =
          getInitialTitleCacheKey [(''vmName'', ''termina''), (''containerName'', ''penguin'')],
        isFirstTitle = True\<rparr>,
          \<lparr>localStorage = Map.empty, windowRecords = Map.empty, document_title = ''Terminal''\<rparr>)"
    by (simp add: setUpTitleHandler_def r1 initialVshTitle_def DEFAULT_VM_NAME_def
          DEFAULT_CONTAINER_NAME_def getInitialTitleCacheKey_def JSON_stringify_def)
  have o1: "titleObserver
        \<lparr>tab_id = 7, tab_windowId = 1, tracker_active = True,
        tracker_terminalInfo = \<lparr>terminalId = Some ''t7'', info_containerId = None,
                                 tmuxDriverChannel = None\<rparr>,
        parentTerminal = None\<rparr>
        ''foo''
        (\<lparr>observer_hasCwd = False,
        observer_key =
          getInitialTitleCacheKey [(''vmName'', ''termina''), (''containerName'', ''penguin'')],
        isFirstTitle = True\<rparr>,
         \<lparr>localStorage = Map.empty, windowRecords = Map.empty, document_title = ''foo''\<rparr>) =
      (fst (titleObserver
        \<lparr>tab_id = 7, tab_windowId = 1, tracker_active = True,
        tracker_terminalInfo = \<lparr>terminalId = Some ''t7'', info_containerId = None,
                                 tmuxDriverChannel = None\<rparr>,
        parentTerminal = None\<rparr>
        ''foo''
        (\<lparr>observer_hasCwd = False,
        observer_key =
          getInitialTitleCacheKey [(''vmName'', ''termina''), (''containerName'', ''penguin'')],
        isFirstTitle = True\<rparr>,
         \<lparr>localStorage = Map.empty, windowRecords = Map.empty, document_title = ''foo''\<rparr>)),
       (snd (titleObserver
        \<lparr>tab_id = 7, tab_windowId = 1, tracker_active = True,
        tracker_terminalInfo = \<lparr>terminalId = Some ''t7'', info_containerId = None,
                                 tmuxDriverChannel = None\<rparr>,
        parentTerminal = None\<rparr>
        ''foo''
        (\<lparr>observer_hasCwd = False,
        observer_key =
          getInitialTitleCacheKey [(''vmName'', ''termina''), (''containerName'', ''penguin'')],
        isFirstTitle = True\<rparr>,
         \<lparr>localStorage = Map.empty, windowRecords = Map.empty, document_title = ''foo''\<rparr>))))"
    by simp
  have r2: "resolveLaunchInfo (\<lambda>json. None)
       \<lparr>tab_id = 9, tab_windowId = 2, tracker_active = True,
        tracker_terminalInfo = \<lparr>terminalId = None, info_containerId = None,
                                 tmuxDriverChannel = None\<rparr>,
        parentTerminal = None\<rparr>
       False
       \<lparr>host = ''terminal'', pathname = ''/html/terminal.html'', searchParams = []\<rparr>
       (Some (Vsh \<lparr>args = [], containerId = [(''containerName'', ''penguin''), (''vmName'', ''termina'')],
          hasCwd = False\<rparr>)) =
     Inr (Vsh \<lparr>args = [], containerId = [(''containerName'', ''penguin''), (''vmName'', ''termina'')],
          hasCwd = False\<rparr>)"
    by (simp add: resolveLaunchInfo_def)
  show ?thesis
    by (rule title_cache_roundtrip [OF r1 _ _ _ s1 o1 r2]) simp_all
qed

lemma maybeUpdate_windowRecords_localStorage [simp]:
  "windowRecords (maybeUpdateWindowActiveTerminal tracker (w\<lparr>localStorage := ls\<rparr>)) =
   windowRecords (maybeUpdateWindowActiveTerminal tracker w)"
  by (simp add: maybeUpdateWindowActiveTerminal_def clearWindowRecord_def namesThisTab_def
        getWindowActiveTerminal_def)

text \<open>
  Claim C9, as the code has it. For a vsh launch, the title handler installs an observer such
  that, over any sequence of title mutations, the cache entry under the container's key is
  the text read at the first mutation when \<^verbatim>\<open>hasCwd\<close> of the launch info is false, and the
  cache is left as it was when \<^verbatim>\<open>hasCwd\<close> is true: later mutations never write it. For a
  launch resolved from the URL, \<^verbatim>\<open>hasCwd\<close> is true when the \<^verbatim>\<open>args[]\<close> supply a \<^verbatim>\<open>--cwd=\<close>
  argument and also when the parent's working directory is followed. The window records
  after any mutation, first or later, are those the tracker's
  \<^verbatim>\<open>maybeUpdateWindowActiveTerminal()\<close> leaves on the page with the new title, so that for an
  active tab with a terminal id the persisted record carries the title of the latest
  mutation.
\<close>

theorem first_title_cached_unless_hasCwd:
  assumes "(case launchInfo of
              Some li \<Rightarrow> Inr li
            | None \<Rightarrow> getTerminalLaunchInfo JSON_parse tracker0 flag url) = Inr (Vsh vsh)"
  shows
    "\<exists>ob w1.
       setUpTitleHandler JSON_parse tracker0 flag url launchInfo w0 = Inr (Some ob, w1) \<and>
       localStorage
         (snd (runTitleMutations ((tracker, doc_title, textContent) # events) (ob, w))) =
         (if hasCwd vsh then localStorage w
          else (localStorage w)(getInitialTitleCacheKey (containerId vsh) \<mapsto> textContent)) \<and>
       (launchInfo = None \<longrightarrow>
          hasCwd vsh =
            (suppliesCwd (searchParams_getAll (searchParams url) ''args[]'') \<or>
             followsParentCwd (parentTerminal tracker0)
               (searchParams_getAll (searchParams url) ''args[]'') (containerId vsh))) \<and>
       windowRecords
         (snd (runTitleMutations (events @ [(tracker, doc_title, textContent)]) (ob, w))) =
         windowRecords
           (maybeUpdateWindowActiveTerminal tracker
              ((snd (runTitleMutations events (ob, w)))\<lparr>document_title := doc_title\<rparr>)) \<and>
       (tracker_active tracker \<and>
        (\<exists>tid. terminalId (tracker_terminalInfo tracker) = Some tid \<and> tid \<noteq> []) \<longrightarrow>
          windowRecords
            (snd (runTitleMutations (events @ [(tracker, doc_title, textContent)]) (ob, w)))
            (tab_windowId tracker) =
          Some (Parsed (activeTerminal_json (tab_id tracker) doc_title
                          (tracker_terminalInfo tracker))))"
proof -
  define ob where "ob = \<lparr>observer_hasCwd = hasCwd vsh,
                         observer_key = getInitialTitleCacheKey (containerId vsh),
                         isFirstTitle = True\<rparr>"
  from assms have resolved:
    "resolveLaunchInfo JSON_parse tracker0 flag url launchInfo = Inr (Vsh vsh)"
    by (simp add: resolveLaunchInfo_def)
  have installed: "setUpTitleHandler JSON_parse tracker0 flag url launchInfo w0 =
                 Inr (Some ob, initialVshTitle tracker0 vsh w0)"
    by (simp add: setUpTitleHandler_def resolved ob_def)
  obtain ob' w' where step:
    "titleObserver tracker textContent (ob, w\<lparr>document_title := doc_title\<rparr>) = (ob', w')"
    by (cases "titleObserver tracker textContent (ob, w\<lparr>document_title := doc_title\<rparr>)")
  then have later: "\<not> isFirstTitle ob'"
    and first: "localStorage w' =
         (if hasCwd vsh then localStorage w
          else (localStorage w)(getInitialTitleCacheKey (containerId vsh) \<mapsto> textContent))"
    by (auto simp: titleObserver_def ob_def)
  have cache: "localStorage
         (snd (runTitleMutations ((tracker, doc_title, textContent) # events) (ob, w))) =
         (if hasCwd vsh then localStorage w
          else (localStorage w)(getInitialTitleCacheKey (containerId vsh) \<mapsto> textContent))"
    using runTitleMutations_later [OF later, of events w'] first by (simp add: step)
  have inputs: "hasCwd vsh =
            (suppliesCwd (searchParams_getAll (searchParams url) ''args[]'') \<or>
             followsParentCwd (parentTerminal tracker0)
               (searchParams_getAll (searchParams url) ''args[]'') (containerId vsh))"
    if "launchInfo = None"
  proof -
    from assms that have "getTerminalLaunchInfo JSON_parse tracker0 flag url = Inr (Vsh vsh)"
      by simp
    then show ?thesis by (rule vsh_resolution_explicit(2))
  qed
  have evaluated: "windowRecords
         (snd (runTitleMutations (events @ [(tracker, doc_title, textContent)]) (ob, w))) =
         windowRecords
           (maybeUpdateWindowActiveTerminal tracker
              ((snd (runTitleMutations events (ob, w)))\<lparr>document_title := doc_title\<rparr>))"
    by (simp add: runTitleMutations_snoc titleObserver_def split: prod.splits)
  have current: "windowRecords
            (snd (runTitleMutations (events @ [(tracker, doc_title, textContent)]) (ob, w)))
            (tab_windowId tracker) =
          Some (Parsed (activeTerminal_json (tab_id tracker) doc_title
                          (tracker_terminalInfo tracker)))"
    if "tracker_active tracker \<and>
        (\<exists>tid. terminalId (tracker_terminalInfo tracker) = Some tid \<and> tid \<noteq> [])"
    using that unfolding evaluated
    by (auto simp: maybeUpdateWindowActiveTerminal_def truthy_str_def)
  from installed cache inputs evaluated current show ?thesis by blast
qed

text \<open>
  A session without parent and without \<^verbatim>\<open>--cwd=\<close>: after the mutations \<^verbatim>\<open>foo\<close> and \<^verbatim>\<open>bar\<close> the
  cache holds \<^verbatim>\<open>foo\<close> and the window's record carries the title \<^verbatim>\<open>bar\<close>.
\<close>

theorem first_title_cached_unless_hasCwd_witness:
  "localStorage
     (snd (runTitleMutations
        [(\<lparr>tab_id = 7, tab_windowId = 1, tracker_active = True,
        tracker_terminalInfo = \<lparr>terminalId = Some ''t7'', info_containerId = None,
                                 tmuxDriverChannel = None\<rparr>,
        parentTerminal = None\<rparr>,
          ''foo'', ''foo''),
         (\<lparr>tab_id = 7, tab_windowId = 1, tracker_active = True,
        tracker_terminalInfo = \<lparr>terminalId = Some ''t7'', info_containerId = None,
                                 tmuxDriverChannel = None\<rparr>,
        parentTerminal = None\<rparr>,
          ''bar'', ''bar'')]
        (\<lparr>observer_hasCwd = False,
        observer_key =
          getInitialTitleCacheKey [(''vmName'', ''termina''), (''containerName'', ''penguin'')],
        isFirstTitle = True\<rparr>,
         \<lparr>localStorage = Map.empty, windowRecords = Map.empty, document_title = ''Terminal''\<rparr>)))
     (getInitialTitleCacheKey [(''vmName'', ''termina''), (''containerName'', ''penguin'')]) =
   Some ''foo'' \<and>
   windowRecords
     (snd (runTitleMutations
        [(\<lparr>tab_id = 7, tab_windowId = 1, tracker_active = True,
        tracker_terminalInfo = \<lparr>terminalId = Some ''t7'', info_containerId = None,
                                 tmuxDriverChannel = None\<rparr>,
        parentTerminal = None\<rparr>,
          ''foo'', ''foo''),
         (\<lparr>tab_id = 7, tab_windowId = 1, tracker_active = True,
        tracker_terminalInfo = \<lparr>terminalId = Some ''t7'', info_containerId = None,
                                 tmuxDriverChannel = None\<rparr>,
        parentTerminal = None\<rparr>,
          ''bar'', ''bar'')]
        (\<lparr>observer_hasCwd = False,
        observer_key =
          getInitialTitleCacheKey [(''vmName'', ''termina''), (''containerName'', ''penguin'')],
        isFirstTitle = True\<rparr>,
         \<lparr>localStorage = Map.empty, windowRecords = Map.empty, document_title = ''Terminal''\<rparr>))) 1 =
   Some (Parsed (JObj [(''tabId'', JNum 7), (''title'', JStr ''bar''),
                       (''terminalInfo'', JObj [(''terminalId'', JStr ''t7'')])]))"
proof -
  have r1: "(case None of
              Some li \<Rightarrow> Inr li
            | None \<Rightarrow> getTerminalLaunchInfo (\<lambda>json. None)
       \<lparr>tab_id = 7, tab_windowId = 1, tracker_active = True,
        tracker_terminalInfo = \<lparr>terminalId = Some ''t7'', info_containerId = None,
                                 tmuxDriverChannel = None\<rparr>,
        parentTerminal = None\<rparr>
       False
       \<lparr>host = ''terminal'', pathname = ''/html/terminal.html'',
      searchParams = []\<rparr>) =
     Inr (Vsh \<lparr>args = [''--vm_name=termina'', ''--target_container=penguin''],
          containerId = [(''vmName'', ''termina''), (''containerName'', ''penguin'')],
          hasCwd = False\<rparr>)"
    by (simp add: vsh_eval)
  from first_title_cached_unless_hasCwd [OF r1,
      of "\<lparr>localStorage = Map.empty, windowRecords = Map.empty, document_title = ''Terminal''\<rparr>"
         "\<lparr>tab_id = 7, tab_windowId = 1, tracker_active = True,
        tracker_terminalInfo = \<lparr>terminalId = Some ''t7'', info_containerId = None,
                                 tmuxDriverChannel = None\<rparr>,
        parentTerminal = None\<rparr>"
         "''foo''" "''foo''"
         "[(\<lparr>tab_id = 7, tab_windowId = 1, tracker_active = True,
        tracker_terminalInfo = \<lparr>terminalId = Some ''t7'', info_containerId = None,
                                 tmuxDriverChannel = None\<rparr>,
        parentTerminal = None\<rparr>,
            ''bar'', ''bar'')]"
         "\<lparr>localStorage = Map.empty, windowRecords = Map.empty, document_title = ''Terminal''\<rparr>"]
  obtain ob w1 where
    a: "setUpTitleHandler (\<lambda>json. None)
       \<lparr>tab_id = 7, tab_windowId = 1, tracker_active = True,
        tracker_terminalInfo = \<lparr>terminalId = Some ''t7'', info_containerId = None,
                                 tmuxDriverChannel = None\<rparr>,
        parentTerminal = None\<rparr>
       False
       \<lparr>host = ''terminal'', pathname = ''/html/terminal.html'',
      searchParams = []\<rparr>
       None
       \<lparr>localStorage = Map.empty, windowRecords = Map.empty, document_title = ''Terminal''\<rparr> = Inr (Some ob, w1)"
    and b: "localStorage
     (snd (runTitleMutations
        [(\<lparr>tab_id = 7, tab_windowId = 1, tracker_active = True,
        tracker_terminalInfo = \<lparr>terminalId = Some ''t7'', info_containerId = None,
                                 tmuxDriverChannel = None\<rparr>,
        parentTerminal = None\<rparr>,
          ''foo'', ''foo''),
         (\<lparr>tab_id = 7, tab_windowId = 1, tracker_active = True,
        tracker_terminalInfo = \<lparr>terminalId = Some ''t7'', info_containerId = None,
                                 tmuxDriverChannel = None\<rparr>,
        parentTerminal = None\<rparr>,
          ''bar'', ''bar'')]
        (ob, \<lparr>localStorage = Map.empty, windowRecords = Map.empty, document_title = ''Terminal''\<rparr>))) =
      (localStorage \<lparr>localStorage = Map.empty, windowRecords = Map.empty, document_title = ''Terminal''\<rparr>)
        (getInitialTitleCacheKey [(''vmName'', ''termina''), (''containerName'', ''penguin'')] \<mapsto>
           ''foo'')"
    by auto
  from a have ob: "ob = \<lparr>observer_hasCwd = False,
        observer_key =
          getInitialTitleCacheKey [(''vmName'', ''termina''), (''containerName'', ''penguin'')],
        isFirstTitle = True\<rparr>"
    by (simp add: setUpTitleHandler_def resolveLaunchInfo_def vsh_eval)
  from first_title_cached_unless_hasCwd [OF r1,
      of "\<lparr>localStorage = Map.empty, windowRecords = Map.empty, document_title = ''Terminal''\<rparr>"
         "\<lparr>tab_id = 7, tab_windowId = 1, tracker_active = True,
        tracker_terminalInfo = \<lparr>terminalId = Some ''t7'', info_containerId = None,
                                 tmuxDriverChannel = None\<rparr>,
        parentTerminal = None\<rparr>"
         "''bar''" "''bar''"
         "[(\<lparr>tab_id = 7, tab_windowId = 1, tracker_active = True,
        tracker_terminalInfo = \<lparr>terminalId = Some ''t7'', info_containerId = None,
                                 tmuxDriverChannel = None\<rparr>,
        parentTerminal = None\<rparr>,
            ''foo'', ''foo'')]"
         "\<lparr>localStorage = Map.empty, windowRecords = Map.empty, document_title = ''Terminal''\<rparr>"]
  obtain ob2 w2 where
    c: "setUpTitleHandler (\<lambda>json. None)
       \<lparr>tab_id = 7, tab_windowId = 1, tracker_active = True,
        tracker_terminalInfo = \<lparr>terminalId = Some ''t7'', info_containerId = None,
                                 tmuxDriverChannel = None\<rparr>,
        parentTerminal = None\<rparr>
       False
       \<lparr>host = ''terminal'', pathname = ''/html/terminal.html'',
      searchParams = []\<rparr>
       None
       \<lparr>localStorage = Map.empty, windowRecords = Map.empty, document_title = ''Terminal''\<rparr> = Inr (Some ob2, w2)"
    and d: "windowRecords
     (snd (runTitleMutations
        [(\<lparr>tab_id = 7, tab_windowId = 1, tracker_active = True,
        tracker_terminalInfo = \<lparr>terminalId = Some ''t7'', info_containerId = None,
                                 tmuxDriverChannel = None\<rparr>,
        parentTerminal = None\<rparr>,
          ''foo'', ''foo''),
         (\<lparr>tab_id = 7, tab_windowId = 1, tracker_active = True,
        tracker_terminalInfo = \<lparr>terminalId = Some ''t7'', info_containerId = None,
                                 tmuxDriverChannel = None\<rparr>,
        parentTerminal = None\<rparr>,
          ''bar'', ''bar'')]
        (ob2, \<lparr>localStorage = Map.empty, windowRecords = Map.empty, document_title = ''Terminal''\<rparr>))) 1 =
      Some (Parsed (activeTerminal_json 7 ''bar''
              \<lparr>terminalId = Some ''t7'', info_containerId = None,
               tmuxDriverChannel = None\<rparr>))"
    by auto
  from c have ob2: "ob2 = \<lparr>observer_hasCwd = False,
        observer_key =
          getInitialTitleCacheKey [(''vmName'', ''termina''), (''containerName'', ''penguin'')],
        isFirstTitle = True\<rparr>"
    by (simp add: setUpTitleHandler_def resolveLaunchInfo_def vsh_eval)
  from b d show ?thesis
    unfolding ob ob2
    by (simp add: activeTerminal_json_def terminalInfo_json_def optionalProperty_def)
qed

text \<open>
  The claim as stated fails: a tab opened from a parent on the same container, with no
  \<^verbatim>\<open>--cwd=\<close> among its arguments, follows the parent's directory, so \<^verbatim>\<open>hasCwd\<close> is true and
  its first title is not cached.
\<close>

theorem inherited_cwd_title_not_cached_counterexample:
  "searchParams_getAll
     (searchParams \<lparr>host = ''terminal'', pathname = ''/html/terminal.html'',
      searchParams = []\<rparr>) ''args[]'' = [] \<and>
   getTerminalLaunchInfo (\<lambda>json. None)
     \<lparr>tab_id = 7, tab_windowId = 1, tracker_active = True,
      tracker_terminalInfo = \<lparr>terminalId = None, info_containerId = None,
                               tmuxDriverChannel = None\<rparr>,
      parentTerminal = Some \<lparr>tabId = 3, title = ''parent'',
        terminalInfo = \<lparr>terminalId = Some ''t1'',
          info_containerId = Some [(''vmName'', ''termina''), (''containerName'', ''penguin'')],
          tmuxDriverChannel = None\<rparr>\<rparr>\<rparr>
     False
     \<lparr>host = ''terminal'', pathname = ''/html/terminal.html'',
      searchParams = []\<rparr> =
     Inr (Vsh \<lparr>args = [''--vm_name=termina'', ''--target_container=penguin'',
                       ''--cwd=terminal_id:t1''],
               containerId = [(''vmName'', ''termina''), (''containerName'', ''penguin'')],
               hasCwd = True\<rparr>) \<and>
   setUpTitleHandler (\<lambda>json. None)
     \<lparr>tab_id = 7, tab_windowId = 1, tracker_active = True,
      tracker_terminalInfo = \<lparr>terminalId = None, info_containerId = None,
                               tmuxDriverChannel = None\<rparr>,
      parentTerminal = Some \<lparr>tabId = 3, title = ''parent'',
        terminalInfo = \<lparr>terminalId = Some ''t1'',
          info_containerId = Some [(''vmName'', ''termina''), (''containerName'', ''penguin'')],
          tmuxDriverChannel = None\<rparr>\<rparr>\<rparr>
     False
     \<lparr>host = ''terminal'', pathname = ''/html/terminal.html'',
      searchParams = []\<rparr>
     None
     \<lparr>localStorage = Map.empty, windowRecords = Map.empty, document_title = ''Terminal''\<rparr> =
     Inr (Some \<lparr>observer_hasCwd = True,
        observer_key =
          getInitialTitleCacheKey [(''vmName'', ''termina''), (''containerName'', ''penguin'')],
        isFirstTitle = True\<rparr>,
          \<lparr>localStorage = Map.empty, windowRecords = Map.empty,
           document_title = ''parent''\<rparr>) \<and>
   localStorage
     (snd (titleObserver
        \<lparr>tab_id = 7, tab_windowId = 1, tracker_active = True,
      tracker_terminalInfo = \<lparr>terminalId = None, info_containerId = None,
                               tmuxDriverChannel = None\<rparr>,
      parentTerminal = Some \<lparr>tabId = 3, title = ''parent'',
        terminalInfo = \<lparr>terminalId = Some ''t1'',
          info_containerId = Some [(''vmName'', ''termina''), (''containerName'', ''penguin'')],
          tmuxDriverChannel = None\<rparr>\<rparr>\<rparr>
        ''foo''
        (\<lparr>observer_hasCwd = True,
        observer_key =
          getInitialTitleCacheKey [(''vmName'', ''termina''), (''containerName'', ''penguin'')],
        isFirstTitle = True\<rparr>,
         \<lparr>localStorage = Map.empty, windowRecords = Map.empty,
          document_title = ''foo''\<rparr>)))
     (getInitialTitleCacheKey [(''vmName'', ''termina''), (''containerName'', ''penguin'')]) = None"
  by (simp add: vsh_eval setUpTitleHandler_def resolveLaunchInfo_def initialVshTitle_def
        titleObserver_def searchParams_getAll_def)

end
